theory Spec2Isabelle
  imports Main "HOL-Library.Char_ord" "HOL-Library.List_Lexorder" "HOL-Library.AList"
begin

section \<open>JavaScript values, thrown values and strings\<close>

text \<open>
  The migrator (\<^verbatim>\<open>src/index.js\<close>) reads rows of a Realm store. A row is a JavaScript
  object; reading a property that the row does not have gives \<^verbatim>\<open>undefined\<close>. Under the
  schemaless open a row has whatever properties the file embeds, so a property value is
  modelled as an untyped JavaScript value.
\<close>

datatype jsval =
    JUndefined
  | JNull
  | JBool bool
  | JNumber int
  | JString string
  | JDate int
  | JObject nat

text \<open>A thrown value: an \<^verbatim>\<open>Error\<close> with its message, or any other thrown value.\<close>

datatype thrown = Error string | NonError

type_synonym js_object = "(string \<times> jsval) list"

text \<open>\<^verbatim>\<open>o.name\<close>: the own property, or \<^verbatim>\<open>undefined\<close>.\<close>

definition property :: "js_object \<Rightarrow> string \<Rightarrow> jsval" where
  "property obj name = (case map_of obj name of Some v \<Rightarrow> v | None \<Rightarrow> JUndefined)"

text \<open>
  Identifiers are modelled as byte strings. \<^verbatim>\<open>String.prototype.toLowerCase\<close> is modelled on
  the ASCII range, where the identifiers of the store (UUIDs) live: the letters
  \<^verbatim>\<open>A\<close>..\<^verbatim>\<open>Z\<close> are mapped to \<^verbatim>\<open>a\<close>..\<^verbatim>\<open>z\<close> and every other character is kept. The runtime's
  mapping of code points beyond ASCII is not part of the repository.
\<close>

definition lower_char :: "char \<Rightarrow> char" where
  "lower_char c =
     (let n = (of_char c :: nat) in if 65 \<le> n \<and> n \<le> 90 then char_of (n + 32) else c)"

definition toLowerCase :: "string \<Rightarrow> string" where
  "toLowerCase s = map lower_char s"

text \<open>
  \<^verbatim>\<open>v.toLowerCase()\<close> on an arbitrary value: only a string has the method; on
  \<^verbatim>\<open>undefined\<close> and \<^verbatim>\<open>null\<close> the property read throws, on every other value the call does.
\<close>

fun call_toLowerCase :: "jsval \<Rightarrow> thrown + string" where
  "call_toLowerCase (JString s) = Inr (toLowerCase s)"
| "call_toLowerCase JUndefined = Inl (Error ''Cannot read properties of undefined'')"
| "call_toLowerCase JNull = Inl (Error ''Cannot read properties of null'')"
| "call_toLowerCase v = Inl (Error ''toLowerCase is not a function'')"

text \<open>\<^verbatim>\<open>Array.prototype.map\<close> with a callback that may throw: the first throw ends the call.\<close>

fun try_map :: "('a \<Rightarrow> thrown + 'b) \<Rightarrow> 'a list \<Rightarrow> thrown + 'b list" where
  "try_map f [] = Inr []"
| "try_map f (x # xs) =
     (case f x of
        Inl e \<Rightarrow> Inl e
      | Inr y \<Rightarrow> (case try_map f xs of Inl e \<Rightarrow> Inl e | Inr ys \<Rightarrow> Inr (y # ys)))"

section \<open>aggregateBy\<close>

text \<open>
  \<^verbatim>\<open>
  function aggregateBy(items, keySelector) {
    const result = {};
    for (const item of items) {
      const key = keySelector(item);
      if (!result[key]) {
        result[key] = [];
      }
      result[key].push(item);
    }
    return result;
  }
  \<close>
  \<^verbatim>\<open>result\<close> is an ordinary object literal, so its prototype is \<^verbatim>\<open>Object.prototype\<close>:
  \<^verbatim>\<open>result[key]\<close> finds an own property (always an array here), or else a member inherited
  from \<^verbatim>\<open>Object.prototype\<close>, or else \<^verbatim>\<open>undefined\<close>. The own properties are kept as an
  association list in insertion order (the enumeration order of integer-like keys is not
  modelled; nothing below depends on it). The key selector is taken with its result already
  converted to a property key.
\<close>

definition Object_prototype_names :: "string list" where
  "Object_prototype_names =
     [''constructor'', ''__defineGetter__'', ''__defineSetter__'', ''hasOwnProperty'',
      ''__lookupGetter__'', ''__lookupSetter__'', ''isPrototypeOf'', ''propertyIsEnumerable'',
      ''toString'', ''valueOf'', ''__proto__'', ''toLocaleString'']"

datatype 'a lookup = Own "'a list" | Inherited | Absent

definition get_property :: "(string \<times> 'a list) list \<Rightarrow> string \<Rightarrow> 'a lookup" where
  "get_property result key =
     (case map_of result key of
        Some xs \<Rightarrow> Own xs
      | None \<Rightarrow> if key \<in> set Object_prototype_names then Inherited else Absent)"

text \<open>
  One iteration of the loop. An array (even an empty one) and every inherited member are
  truthy; only \<^verbatim>\<open>undefined\<close> makes \<^verbatim>\<open>!result[key]\<close> true. No inherited member has a
  \<^verbatim>\<open>push\<close> method, so the call on it throws a \<^verbatim>\<open>TypeError\<close>.
\<close>

definition aggregateBy_step ::
  "('a \<Rightarrow> string) \<Rightarrow> 'a \<Rightarrow> (string \<times> 'a list) list \<Rightarrow> thrown + (string \<times> 'a list) list" where
  "aggregateBy_step keySelector item result =
     (let key = keySelector item;
          result1 = (if get_property result key = Absent
                     then AList.update key [] result else result)
      in case get_property result1 key of
           Own xs \<Rightarrow> Inr (AList.update key (xs @ [item]) result1)
         | Inherited \<Rightarrow> Inl (Error ''result[key].push is not a function'')
         | Absent \<Rightarrow> Inl (Error ''Cannot read properties of undefined''))"

fun aggregateBy_loop ::
  "('a \<Rightarrow> string) \<Rightarrow> 'a list \<Rightarrow> (string \<times> 'a list) list \<Rightarrow> thrown + (string \<times> 'a list) list" where
  "aggregateBy_loop keySelector [] result = Inr result"
| "aggregateBy_loop keySelector (item # items) result =
     (case aggregateBy_step keySelector item result of
        Inl e \<Rightarrow> Inl e
      | Inr result' \<Rightarrow> aggregateBy_loop keySelector items result')"

definition aggregateBy :: "'a list \<Rightarrow> ('a \<Rightarrow> string) \<Rightarrow> thrown + (string \<times> 'a list) list" where
  "aggregateBy items keySelector = aggregateBy_loop keySelector items []"

section \<open>The store\<close>

text \<open>
  A Realm handle as the handler uses it: \<^verbatim>\<open>realm.schemaVersion\<close> and
  \<^verbatim>\<open>realm.objects(name)\<close>, which throws when the schema the handle was opened with has no
  such table. The Realm library itself is not part of the repository; a handle is given by
  its tables.
\<close>

record realm =
  realm_schemaVersion :: int
  tables :: "(string \<times> js_object list) list"

definition objects :: "realm \<Rightarrow> string \<Rightarrow> thrown + js_object list" where
  "objects r name =
     (case map_of (tables r) name of
        Some rows \<Rightarrow> Inr rows
      | None \<Rightarrow> Inl (Error (''Object type not found in schema: '' @ name)))"

text \<open>The store keeps the primary key of a table unique (\<^verbatim>\<open>primaryKey: 'uuid'\<close>).\<close>

definition primaryKey_unique :: "string \<Rightarrow> js_object list \<Rightarrow> bool" where
  "primaryKey_unique pk rows = distinct (map (\<lambda>row. property row pk) rows)"

fun is_string :: "jsval \<Rightarrow> bool" where
  "is_string (JString s) = True"
| "is_string v = False"

text \<open>The rows carry strings in the given properties, as the declared schema types them.\<close>

definition string_properties :: "string list \<Rightarrow> js_object list \<Rightarrow> bool" where
  "string_properties names rows =
     list_all (\<lambda>row. list_all (\<lambda>name. is_string (property row name)) names) rows"

datatype OfflineTrackState = UNKNOWN | DOWNLOAD_QUEUED | DOWNLOADING | DOWNLOADED | DELETING

fun ordinal :: "OfflineTrackState \<Rightarrow> int" where
  "ordinal UNKNOWN = 0"
| "ordinal DOWNLOAD_QUEUED = 1"
| "ordinal DOWNLOADING = 2"
| "ordinal DOWNLOADED = 3"
| "ordinal DELETING = 4"

section \<open>The snapshot\<close>

record source_record =
  uuid :: string
  created_at :: jsval
  artist_uuid :: string
  show_uuid :: string
  show_date :: jsval

record offline_track_record =
  track_uuid :: string
  artist_uuid :: string
  show_uuid :: string
  source_uuid :: string
  created_at :: jsval
  state :: jsval
  file_size :: jsval

record legacyData =
  trackUuids :: "string list"
  showUuids :: "string list"
  sources :: "source_record list"
  artistUuids :: "string list"
  offlineTracksBySource :: "(string \<times> offline_track_record list) list"
  schemaVersion :: int

definition initial_legacyData :: "int \<Rightarrow> legacyData" where
  "initial_legacyData version =
     \<lparr>trackUuids = [], showUuids = [], sources = [], artistUuids = [],
      offlineTracksBySource = [], schemaVersion = version\<rparr>"

section \<open>Extraction\<close>

text \<open>
  \<^verbatim>\<open>Array.from(realm.objects(name)).map((o) => o.uuid.toLowerCase()).sort()\<close>, the
  statement used for FavoritedTrack, FavoritedShow and FavoritedArtist. The default
  \<^verbatim>\<open>sort\<close> orders strings by their code units, ascending.
\<close>

definition favorite_uuids :: "realm \<Rightarrow> string \<Rightarrow> thrown + string list" where
  "favorite_uuids r name =
     (case objects r name of
        Inl e \<Rightarrow> Inl e
      | Inr rows \<Rightarrow>
          (case try_map (\<lambda>row. call_toLowerCase (property row ''uuid'')) rows of
             Inl e \<Rightarrow> Inl e
           | Inr uuids \<Rightarrow> Inr (sort uuids)))"

text \<open>The object literal built for one FavoritedSource row; its properties are evaluated in order.\<close>

definition source_of :: "js_object \<Rightarrow> thrown + source_record" where
  "source_of row =
     (case call_toLowerCase (property row ''uuid'') of
        Inl e \<Rightarrow> Inl e
      | Inr u \<Rightarrow>
     (case call_toLowerCase (property row ''artist_uuid'') of
        Inl e \<Rightarrow> Inl e
      | Inr a \<Rightarrow>
     (case call_toLowerCase (property row ''show_uuid'') of
        Inl e \<Rightarrow> Inl e
      | Inr s \<Rightarrow>
          Inr \<lparr>uuid = u, source_record.created_at = property row ''created_at'',
               source_record.artist_uuid = a, source_record.show_uuid = s,
               show_date = property row ''show_date''\<rparr>)))"

definition favorite_sources :: "realm \<Rightarrow> thrown + source_record list" where
  "favorite_sources r =
     (case objects r ''FavoritedSource'' of
        Inl e \<Rightarrow> Inl e
      | Inr rows \<Rightarrow> try_map source_of rows)"

text \<open>\<^verbatim>\<open>o.state === OfflineTrackState.DOWNLOADED\<close>: strict equality with the number 3.\<close>

definition is_downloaded :: "js_object \<Rightarrow> bool" where
  "is_downloaded row = (property row ''state'' = JNumber (ordinal DOWNLOADED))"

definition offline_track_of :: "js_object \<Rightarrow> thrown + offline_track_record" where
  "offline_track_of row =
     (case call_toLowerCase (property row ''track_uuid'') of
        Inl e \<Rightarrow> Inl e
      | Inr t \<Rightarrow>
     (case call_toLowerCase (property row ''artist_uuid'') of
        Inl e \<Rightarrow> Inl e
      | Inr a \<Rightarrow>
     (case call_toLowerCase (property row ''show_uuid'') of
        Inl e \<Rightarrow> Inl e
      | Inr s \<Rightarrow>
     (case call_toLowerCase (property row ''source_uuid'') of
        Inl e \<Rightarrow> Inl e
      | Inr so \<Rightarrow>
          Inr \<lparr>track_uuid = t, artist_uuid = a, show_uuid = s, source_uuid = so,
               created_at = property row ''created_at'', state = property row ''state'',
               file_size = property row ''file_size''\<rparr>))))"

text \<open>The filter runs before the map, so only downloaded rows are normalised.\<close>

definition downloadedTracks :: "realm \<Rightarrow> thrown + offline_track_record list" where
  "downloadedTracks r =
     (case objects r ''OfflineTrack'' of
        Inl e \<Rightarrow> Inl e
      | Inr rows \<Rightarrow> try_map offline_track_of (filter is_downloaded rows))"

definition offline_by_source :: "realm \<Rightarrow> thrown + (string \<times> offline_track_record list) list" where
  "offline_by_source r =
     (case downloadedTracks r of
        Inl e \<Rightarrow> Inl e
      | Inr tracks \<Rightarrow> aggregateBy tracks source_uuid)"

text \<open>
  The block \<^verbatim>\<open>try { ... } catch (error) { console.warn(...) }\<close> of the handler: five
  statements in one \<^verbatim>\<open>try\<close>, each assigning one field of \<^verbatim>\<open>legacyData\<close>. A throw leaves
  the fields assigned so far and skips the rest. The result is the caught value, if any,
  and \<^verbatim>\<open>legacyData\<close> as the block leaves it.
\<close>

definition try_extract :: "realm \<Rightarrow> legacyData \<Rightarrow> thrown option \<times> legacyData" where
  "try_extract r d0 =
     (case favorite_uuids r ''FavoritedTrack'' of
        Inl e \<Rightarrow> (Some e, d0)
      | Inr t \<Rightarrow>
     (case favorite_uuids r ''FavoritedShow'' of
        Inl e \<Rightarrow> (Some e, d0\<lparr>trackUuids := t\<rparr>)
      | Inr s \<Rightarrow>
     (case favorite_sources r of
        Inl e \<Rightarrow> (Some e, d0\<lparr>trackUuids := t, showUuids := s\<rparr>)
      | Inr so \<Rightarrow>
     (case favorite_uuids r ''FavoritedArtist'' of
        Inl e \<Rightarrow> (Some e, d0\<lparr>trackUuids := t, showUuids := s, sources := so\<rparr>)
      | Inr a \<Rightarrow>
     (case offline_by_source r of
        Inl e \<Rightarrow> (Some e, d0\<lparr>trackUuids := t, showUuids := s, sources := so, artistUuids := a\<rparr>)
      | Inr m \<Rightarrow>
          (None, d0\<lparr>trackUuids := t, showUuids := s, sources := so, artistUuids := a,
                     offlineTracksBySource := m\<rparr>))))))"

section \<open>The handler\<close>

datatype body =
    ErrorBody string
  | FailureBody string string
  | SuccessBody legacyData bool

type_synonym response = "body \<times> nat"

definition isEmpty :: "legacyData \<Rightarrow> bool" where
  "isEmpty d =
     (\<not> (length (trackUuids d) > 0 \<or> length (showUuids d) > 0 \<or> length (sources d) > 0
          \<or> length (artistUuids d) > 0 \<or> length (offlineTracksBySource d) > 0))"

definition details :: "thrown \<Rightarrow> string" where
  "details e = (case e of Error message \<Rightarrow> message | NonError \<Rightarrow> ''Unknown error'')"

definition failure_response :: "thrown \<Rightarrow> response" where
  "failure_response e = (FailureBody ''Database parsing failed'' (details e), 500)"

definition unreadable_response :: response where
  "unreadable_response = (ErrorBody ''Unable to read database or unsupported version'', 400)"

definition missing_input_response :: response where
  "missing_input_response = (ErrorBody ''Database file is required'', 400)"

text \<open>
  The schema catalog of the handler (lines 10 to 93): the name, the primary key and the
  typed properties of each declared object type.
\<close>

datatype object_schema =
  ObjectSchema (schema_name: string) (primaryKey: string) (properties: "(string \<times> string) list")

definition FavoritedArtistSchema :: object_schema where
  "FavoritedArtistSchema =
     ObjectSchema ''FavoritedArtist'' ''uuid'' [(''uuid'', ''string''), (''created_at'', ''date'')]"

definition FavoritedShowSchema :: object_schema where
  "FavoritedShowSchema =
     ObjectSchema ''FavoritedShow'' ''uuid''
       [(''uuid'', ''string''), (''created_at'', ''date''), (''show_date'', ''date''),
        (''artist_uuid'', ''string'')]"

definition FavoritedSourceSchema :: object_schema where
  "FavoritedSourceSchema =
     ObjectSchema ''FavoritedSource'' ''uuid''
       [(''uuid'', ''string''), (''created_at'', ''date''), (''artist_uuid'', ''string''),
        (''show_uuid'', ''string''), (''show_date'', ''date'')]"

definition FavoritedTrackSchema :: object_schema where
  "FavoritedTrackSchema =
     ObjectSchema ''FavoritedTrack'' ''uuid''
       [(''uuid'', ''string''), (''created_at'', ''date''), (''artist_uuid'', ''string''),
        (''show_uuid'', ''string''), (''source_uuid'', ''string'')]"

definition RecentlyPlayedTrackSchema :: object_schema where
  "RecentlyPlayedTrackSchema =
     ObjectSchema ''RecentlyPlayedTrack'' ''uuid''
       [(''uuid'', ''string''), (''created_at'', ''date''), (''artist_uuid'', ''string''),
        (''show_uuid'', ''string''), (''source_uuid'', ''string''), (''track_uuid'', ''string''),
        (''updated_at'', ''date''), (''past_halfway'', ''bool'')]"

definition OfflineTrackSchema :: object_schema where
  "OfflineTrackSchema =
     ObjectSchema ''OfflineTrack'' ''track_uuid''
       [(''track_uuid'', ''string''), (''artist_uuid'', ''string''), (''show_uuid'', ''string''),
        (''source_uuid'', ''string''), (''created_at'', ''date''), (''state'', ''int''),
        (''file_size'', ''int?'')]"

definition OfflineSourceSchema :: object_schema where
  "OfflineSourceSchema =
     ObjectSchema ''OfflineSource'' ''source_uuid''
       [(''source_uuid'', ''string''), (''artist_uuid'', ''string''), (''show_uuid'', ''string''),
        (''year_uuid'', ''string''), (''created_at'', ''date'')]"

text \<open>
  The configuration object of a \<^verbatim>\<open>new Realm({...})\<close> call: \<^verbatim>\<open>readOnly\<close> and the optional
  \<^verbatim>\<open>schema\<close>. Its \<^verbatim>\<open>path\<close> is always the temporary copy of the upload and is left implicit.
\<close>

record realm_config =
  readOnly :: bool
  schema :: "object_schema list option"

text \<open>
  The uploaded file, by what the Realm constructor does on it for a given configuration:
  it returns a handle or throws. The constructor belongs to the Realm library, not to the
  repository, so it is a parameter.
\<close>

type_synonym database_file = "realm_config \<Rightarrow> thrown + realm"

text \<open>
  The two configurations the handler uses: the first call (lines 134 to 146) is read-only
  with the seven declared schemas, the second (line 149) is read-only without a schema.
\<close>

definition FullSchema :: realm_config where
  "FullSchema =
     \<lparr>readOnly = True,
      schema = Some [FavoritedArtistSchema, FavoritedShowSchema, FavoritedSourceSchema,
                     FavoritedTrackSchema, RecentlyPlayedTrackSchema, OfflineTrackSchema,
                     OfflineSourceSchema]\<rparr>"

definition Schemaless :: realm_config where
  "Schemaless = \<lparr>readOnly = True, schema = None\<rparr>"

definition open_full :: "database_file \<Rightarrow> thrown + realm" where
  "open_full file = file FullSchema"

definition open_schemaless :: "database_file \<Rightarrow> thrown + realm" where
  "open_schemaless file = file Schemaless"

text \<open>
  The statements of the handler that lie outside the inner \<^verbatim>\<open>try\<close> and call into the
  runtime or the Realm library. An unexpected failure (I/O, resource exhaustion) at one of
  them is a parameter of a run: the value thrown there, if any. A form field
  \<^verbatim>\<open>database\<close> that is not a file has no \<^verbatim>\<open>arrayBuffer\<close> method, which is a throw at
  \<open>AtArrayBuffer\<close>; an absent or empty field is the missing input.
\<close>

datatype step =
    AtFormData
  | AtArrayBuffer
  | AtWriteFile
  | AtSchemaVersion
  | AtWarn
  | AtClose
  | AtJson

record env =
  database :: "database_file option"
  unexpected :: "step \<Rightarrow> thrown option"

text \<open>What a run does to its resources and its log, in order.\<close>

datatype event =
    WriteTemp
  | OpenRealm realm_config bool
  | LogWarn
  | LogError
  | CloseRealm
  | UnlinkTemp

text \<open>The nested \<^verbatim>\<open>try\<close> around the two constructor calls (lines 132 to 157).\<close>

definition open_realm :: "database_file \<Rightarrow> (thrown + realm) \<times> event list" where
  "open_realm file =
     (case open_full file of
        Inr r \<Rightarrow> (Inr r, [OpenRealm FullSchema True])
      | Inl e \<Rightarrow>
          (case open_schemaless file of
             Inr r \<Rightarrow> (Inr r, [OpenRealm FullSchema False, OpenRealm Schemaless True])
           | Inl err \<Rightarrow> (Inl err, [OpenRealm FullSchema False, OpenRealm Schemaless False])))"

text \<open>\<^verbatim>\<open>realm.close()\<close> and the success response (lines 213 to 225).\<close>

definition close_and_respond :: "env \<Rightarrow> legacyData \<Rightarrow> (thrown + response) \<times> event list" where
  "close_and_respond env d =
     (case unexpected env AtClose of
        Some e \<Rightarrow> (Inl e, [CloseRealm])
      | None \<Rightarrow>
          (case unexpected env AtJson of
             Some e \<Rightarrow> (Inl e, [CloseRealm])
           | None \<Rightarrow> (Inr (SuccessBody d (isEmpty d), 200), [CloseRealm])))"

text \<open>From the open handle to the response (lines 159 to 225).\<close>

definition extract_and_respond :: "env \<Rightarrow> realm \<Rightarrow> (thrown + response) \<times> event list" where
  "extract_and_respond env r =
     (case unexpected env AtSchemaVersion of
        Some e \<Rightarrow> (Inl e, [])
      | None \<Rightarrow>
          (case try_extract r (initial_legacyData (realm_schemaVersion r)) of
             (None, d) \<Rightarrow> close_and_respond env d
           | (Some warning, d) \<Rightarrow>
               (case unexpected env AtWarn of
                  Some e \<Rightarrow> (Inl e, [LogWarn])
                | None \<Rightarrow>
                    (fst (close_and_respond env d), LogWarn # snd (close_and_respond env d)))))"

text \<open>The body of the outer \<^verbatim>\<open>try\<close> once a file is present (lines 126 to 225).\<close>

definition run_with_file :: "env \<Rightarrow> database_file \<Rightarrow> (thrown + response) \<times> event list" where
  "run_with_file env file =
     (case unexpected env AtArrayBuffer of
        Some e \<Rightarrow> (Inl e, [])
      | None \<Rightarrow>
     (case unexpected env AtWriteFile of
        Some e \<Rightarrow> (Inl e, [])
      | None \<Rightarrow>
          (case open_realm file of
             (Inl err, evs) \<Rightarrow> (Inr unreadable_response, WriteTemp # evs @ [LogError])
           | (Inr r, evs) \<Rightarrow>
               (fst (extract_and_respond env r),
                WriteTemp # evs @ snd (extract_and_respond env r)))))"

text \<open>
  \<^verbatim>\<open>app.post('/migrate', ...)\<close>: the outer \<^verbatim>\<open>try\<close>, its \<^verbatim>\<open>catch\<close> (the 500 response) and
  its \<^verbatim>\<open>finally\<close>, which removes the temporary file when its path has been set and does
  nothing else.
\<close>

definition migrate :: "env \<Rightarrow> response \<times> event list" where
  "migrate env =
     (case unexpected env AtFormData of
        Some e \<Rightarrow> (failure_response e, [LogError])
      | None \<Rightarrow>
          (case database env of
             None \<Rightarrow> (missing_input_response, [])
           | Some file \<Rightarrow>
               (case run_with_file env file of
                  (Inr response, evs) \<Rightarrow> (response, evs @ [UnlinkTemp])
                | (Inl e, evs) \<Rightarrow> (failure_response e, evs @ [LogError, UnlinkTemp]))))"

text \<open>The handle an open attempt gave, and a run without unexpected failures.\<close>

definition opened :: "database_file \<Rightarrow> realm option" where
  "opened file = (case fst (open_realm file) of Inr r \<Rightarrow> Some r | Inl e \<Rightarrow> None)"

definition no_unexpected :: "env \<Rightarrow> bool" where
  "no_unexpected env = list_all (\<lambda>s. unexpected env s = None)
     [AtFormData, AtArrayBuffer, AtWriteFile, AtSchemaVersion, AtWarn, AtClose, AtJson]"

section \<open>Notions used to state the properties\<close>

text \<open>The five table names the handler passes to \<^verbatim>\<open>realm.objects\<close>.\<close>

definition read_tables :: "string list" where
  "read_tables =
     [''FavoritedTrack'', ''FavoritedShow'', ''FavoritedSource'', ''FavoritedArtist'',
      ''OfflineTrack'']"

text \<open>What one statement of the extraction block contributes, and whether it completed.\<close>

definition collected :: "thrown + 'a list \<Rightarrow> 'a list" where
  "collected outcome = (case outcome of Inr xs \<Rightarrow> xs | Inl e \<Rightarrow> [])"

definition readable :: "thrown + 'a \<Rightarrow> bool" where
  "readable outcome = (case outcome of Inr x \<Rightarrow> True | Inl e \<Rightarrow> False)"

text \<open>The primary keys of a table stay pairwise different after lowercasing.\<close>

definition case_insensitive_unique :: "realm \<Rightarrow> string \<Rightarrow> bool" where
  "case_insensitive_unique r name =
     (case objects r name of
        Inr rows \<Rightarrow> distinct (map (\<lambda>row. call_toLowerCase (property row ''uuid'')) rows)
      | Inl e \<Rightarrow> True)"

text \<open>The normalised form of a row whose identifiers are strings.\<close>

fun string_of :: "jsval \<Rightarrow> string" where
  "string_of (JString s) = s"
| "string_of v = []"

definition lowered :: "js_object \<Rightarrow> string \<Rightarrow> string" where
  "lowered row name = toLowerCase (string_of (property row name))"

definition normal_source :: "js_object \<Rightarrow> source_record" where
  "normal_source row =
     \<lparr>uuid = lowered row ''uuid'', source_record.created_at = property row ''created_at'',
      source_record.artist_uuid = lowered row ''artist_uuid'',
      source_record.show_uuid = lowered row ''show_uuid'',
      show_date = property row ''show_date''\<rparr>"

definition normal_track :: "js_object \<Rightarrow> offline_track_record" where
  "normal_track row =
     \<lparr>track_uuid = lowered row ''track_uuid'', artist_uuid = lowered row ''artist_uuid'',
      show_uuid = lowered row ''show_uuid'', source_uuid = lowered row ''source_uuid'',
      created_at = property row ''created_at'', state = property row ''state'',
      file_size = property row ''file_size''\<rparr>"

section \<open>Example stores\<close>

text \<open>
  The store that \<^verbatim>\<open>generate-test-db.js\<close> writes, with a second favorited track and with
  identifiers in mixed case.
\<close>

definition artist_table :: "string \<times> js_object list" where
  "artist_table =
     (''FavoritedArtist'', [[(''uuid'', JString ''Artist-123''), (''created_at'', JDate 2)]])"

definition show_table :: "string \<times> js_object list" where
  "show_table =
     (''FavoritedShow'',
        [[(''uuid'', JString ''Show-456''), (''created_at'', JDate 2), (''show_date'', JDate 1),
          (''artist_uuid'', JString ''Artist-123'')]])"

definition source_table :: "string \<times> js_object list" where
  "source_table =
     (''FavoritedSource'',
        [[(''uuid'', JString ''Source-789''), (''created_at'', JDate 2),
          (''artist_uuid'', JString ''Artist-123''), (''show_uuid'', JString ''Show-456''),
          (''show_date'', JDate 1)]])"

definition track_table :: "string \<times> js_object list" where
  "track_table =
     (''FavoritedTrack'',
        [[(''uuid'', JString ''Track-202''), (''created_at'', JDate 3),
          (''artist_uuid'', JString ''Artist-123''), (''show_uuid'', JString ''Show-456''),
          (''source_uuid'', JString ''Source-789'')],
         [(''uuid'', JString ''Track-101''), (''created_at'', JDate 2),
          (''artist_uuid'', JString ''Artist-123''), (''show_uuid'', JString ''Show-456''),
          (''source_uuid'', JString ''Source-789'')]])"

definition offline_table :: "string \<times> js_object list" where
  "offline_table =
     (''OfflineTrack'',
        [[(''track_uuid'', JString ''Offline-Track-202''), (''artist_uuid'', JString ''Artist-123''),
          (''show_uuid'', JString ''Show-456''), (''source_uuid'', JString ''Source-789''),
          (''created_at'', JDate 2), (''state'', JNumber 3), (''file_size'', JNumber 5242880)]])"

definition test_realm :: realm where
  "test_realm =
     \<lparr>realm_schemaVersion = 9,
      tables = [artist_table, show_table, source_table, track_table, offline_table]\<rparr>"

definition test_source :: source_record where
  "test_source =
     \<lparr>uuid = ''source-789'', source_record.created_at = JDate 2,
      source_record.artist_uuid = ''artist-123'', source_record.show_uuid = ''show-456'',
      show_date = JDate 1\<rparr>"

definition test_offline_track :: offline_track_record where
  "test_offline_track =
     \<lparr>track_uuid = ''offline-track-202'', artist_uuid = ''artist-123'',
      show_uuid = ''show-456'', source_uuid = ''source-789'', created_at = JDate 2,
      state = JNumber 3, file_size = JNumber 5242880\<rparr>"

definition test_snapshot :: legacyData where
  "test_snapshot =
     \<lparr>trackUuids = [''track-101'', ''track-202''], showUuids = [''show-456''],
      sources = [test_source], artistUuids = [''artist-123''],
      offlineTracksBySource = [(''source-789'', [test_offline_track])],
      schemaVersion = 9\<rparr>"

text \<open>A run in which no unexpected failure occurs.\<close>

definition calm :: "step \<Rightarrow> thrown option" where
  "calm s = None"

definition test_file :: database_file where
  "test_file config = Inr test_realm"

definition test_env :: env where
  "test_env = \<lparr>database = Some test_file, unexpected = calm\<rparr>"

text \<open>The same upload, in a run where reading \<^verbatim>\<open>realm.schemaVersion\<close> throws.\<close>

definition fault_env :: env where
  "fault_env =
     \<lparr>database = Some test_file,
      unexpected = calm(AtSchemaVersion := Some (Error ''out of memory''))\<rparr>"

text \<open>The test store with the two tables that the handler declares but never reads.\<close>

definition test_realm_more :: realm where
  "test_realm_more =
     \<lparr>realm_schemaVersion = 9,
      tables =
        [(''RecentlyPlayedTrack'',
            [[(''uuid'', JString ''Played-1''), (''track_uuid'', JString ''Track-101'')]]),
         (''OfflineSource'', [[(''source_uuid'', JString ''Source-789'')]]),
         artist_table, show_table, source_table, track_table, offline_table]\<rparr>"

definition test_file_more :: database_file where
  "test_file_more config = Inr test_realm_more"

text \<open>
  A file of an older schema version, without the OfflineTrack and OfflineSource tables:
  the open with the declared schema fails, the schemaless open succeeds.
\<close>

definition legacy_realm :: realm where
  "legacy_realm =
     \<lparr>realm_schemaVersion = 5,
      tables = [artist_table, show_table, source_table, track_table]\<rparr>"

definition legacy_file :: database_file where
  "legacy_file config =
     (case schema config of
        None \<Rightarrow> Inr legacy_realm
      | Some declared \<Rightarrow> Inl (Error ''schema mismatch''))"

definition legacy_env :: env where
  "legacy_env = \<lparr>database = Some legacy_file, unexpected = calm\<rparr>"

definition legacy_snapshot :: legacyData where
  "legacy_snapshot =
     \<lparr>trackUuids = [''track-101'', ''track-202''], showUuids = [''show-456''],
      sources = [test_source], artistUuids = [''artist-123''],
      offlineTracksBySource = [], schemaVersion = 5\<rparr>"

text \<open>A file that is no database: both opens fail.\<close>

definition garbage_file :: database_file where
  "garbage_file config = Inl (Error ''invalid database'')"

definition garbage_env :: env where
  "garbage_env = \<lparr>database = Some garbage_file, unexpected = calm\<rparr>"

text \<open>An older file without the FavoritedShow table; every other table is as in the test store.\<close>

definition no_show_realm :: realm where
  "no_show_realm =
     \<lparr>realm_schemaVersion = 4,
      tables = [artist_table, source_table, track_table, offline_table]\<rparr>"

definition no_show_file :: database_file where
  "no_show_file config =
     (case schema config of
        None \<Rightarrow> Inr no_show_realm
      | Some declared \<Rightarrow> Inl (Error ''schema mismatch''))"

definition no_show_env :: env where
  "no_show_env = \<lparr>database = Some no_show_file, unexpected = calm\<rparr>"

definition no_show_snapshot :: legacyData where
  "no_show_snapshot =
     \<lparr>trackUuids = [''track-101'', ''track-202''], showUuids = [], sources = [],
      artistUuids = [], offlineTracksBySource = [], schemaVersion = 4\<rparr>"

text \<open>Two favorited tracks whose primary keys differ only in case.\<close>

definition dup_rows :: "js_object list" where
  "dup_rows =
     [[(''uuid'', JString ''abc''), (''created_at'', JDate 1)],
      [(''uuid'', JString ''ABC''), (''created_at'', JDate 2)]]"

definition dup_realm :: realm where
  "dup_realm =
     \<lparr>realm_schemaVersion = 9,
      tables = [(''FavoritedTrack'', dup_rows), (''FavoritedShow'', []),
                (''FavoritedSource'', []), (''FavoritedArtist'', []), (''OfflineTrack'', [])]\<rparr>"

definition dup_env :: env where
  "dup_env = \<lparr>database = Some (\<lambda>config. Inr dup_realm), unexpected = calm\<rparr>"

definition dup_snapshot :: legacyData where
  "dup_snapshot =
     \<lparr>trackUuids = [''abc'', ''abc''], showUuids = [], sources = [], artistUuids = [],
      offlineTracksBySource = [], schemaVersion = 9\<rparr>"

text \<open>Offline tracks of two sources, in several states.\<close>

definition offline_row :: "string \<Rightarrow> string \<Rightarrow> int \<Rightarrow> js_object" where
  "offline_row track source st =
     [(''track_uuid'', JString track), (''artist_uuid'', JString ''Artist-1''),
      (''show_uuid'', JString ''Show-1''), (''source_uuid'', JString source),
      (''created_at'', JDate 1), (''state'', JNumber st), (''file_size'', JNull)]"

definition offline_rows :: "js_object list" where
  "offline_rows =
     [offline_row ''T1'' ''Source-B'' 3, offline_row ''T2'' ''Source-B'' 2,
      offline_row ''T3'' ''Source-A'' 3, offline_row ''T4'' ''source-b'' 3,
      offline_row ''T5'' ''Source-C'' 4]"

definition offline_realm :: realm where
  "offline_realm =
     \<lparr>realm_schemaVersion = 9,
      tables = [(''FavoritedTrack'', []), (''FavoritedShow'', []), (''FavoritedSource'', []),
                (''FavoritedArtist'', []), (''OfflineTrack'', offline_rows)]\<rparr>"

definition offline_track :: "string \<Rightarrow> string \<Rightarrow> offline_track_record" where
  "offline_track track source =
     \<lparr>track_uuid = track, artist_uuid = ''artist-1'', show_uuid = ''show-1'',
      source_uuid = source, created_at = JDate 1, state = JNumber 3, file_size = JNull\<rparr>"

text \<open>A downloaded offline track of an older file, whose row has no \<^verbatim>\<open>show_uuid\<close>.\<close>

definition partial_rows :: "js_object list" where
  "partial_rows =
     [offline_row ''T1'' ''Source-B'' 3,
      [(''track_uuid'', JString ''T2''), (''artist_uuid'', JString ''Artist-1''),
       (''source_uuid'', JString ''Source-B''), (''state'', JNumber 3)]]"

definition partial_realm :: realm where
  "partial_realm =
     \<lparr>realm_schemaVersion = 3,
      tables = [(''FavoritedTrack'', []), (''FavoritedShow'', []), (''FavoritedSource'', []),
                (''FavoritedArtist'', []), (''OfflineTrack'', partial_rows)]\<rparr>"

text \<open>A downloaded offline track whose source identifier is \<^verbatim>\<open>Constructor\<close>.\<close>

definition constructor_realm :: realm where
  "constructor_realm =
     \<lparr>realm_schemaVersion = 9,
      tables = [(''FavoritedTrack'', []), (''FavoritedShow'', []), (''FavoritedSource'', []),
                (''FavoritedArtist'', []),
                (''OfflineTrack'', [offline_row ''T1'' ''Constructor'' 3])]\<rparr>"

text \<open>The older file, in a run where reading \<^verbatim>\<open>realm.schemaVersion\<close> throws.\<close>

definition legacy_fault_env :: env where
  "legacy_fault_env =
     \<lparr>database = Some legacy_file,
      unexpected = calm(AtSchemaVersion := Some (Error ''out of memory''))\<rparr>"

text \<open>
  A file of an older schema version without the OfflineTrack and OfflineSource tables,
  whose FavoritedSource rows have no \<^verbatim>\<open>show_uuid\<close> yet.
\<close>

definition older_source_rows :: "js_object list" where
  "older_source_rows =
     [[(''uuid'', JString ''Source-789''), (''created_at'', JDate 2),
       (''artist_uuid'', JString ''Artist-123'')]]"

definition older_realm :: realm where
  "older_realm =
     \<lparr>realm_schemaVersion = 2,
      tables = [artist_table, show_table, (''FavoritedSource'', older_source_rows), track_table]\<rparr>"

definition older_file :: database_file where
  "older_file config =
     (case schema config of
        None \<Rightarrow> Inr older_realm
      | Some declared \<Rightarrow> Inl (Error ''schema mismatch''))"

definition older_env :: env where
  "older_env = \<lparr>database = Some older_file, unexpected = calm\<rparr>"

definition older_snapshot :: legacyData where
  "older_snapshot =
     \<lparr>trackUuids = [''track-101'', ''track-202''], showUuids = [''show-456''],
      sources = [], artistUuids = [], offlineTracksBySource = [], schemaVersion = 2\<rparr>"

section \<open>Basic facts\<close>

lemma lower_char_idem: "lower_char (lower_char c) = lower_char c"
  by (simp add: lower_char_def Let_def)

lemma toLowerCase_idem: "toLowerCase (toLowerCase s) = toLowerCase s"
  by (simp add: toLowerCase_def lower_char_idem)

lemma call_toLowerCase_Inr:
  "call_toLowerCase v = Inr s \<Longrightarrow> \<exists>t. v = JString t \<and> s = toLowerCase t"
  by (cases v) auto

lemma call_toLowerCase_lower: "call_toLowerCase v = Inr s \<Longrightarrow> toLowerCase s = s"
  by (auto dest!: call_toLowerCase_Inr simp: toLowerCase_idem)

lemma is_string_lower: "is_string v \<Longrightarrow> call_toLowerCase v = Inr (toLowerCase (string_of v))"
  by (cases v) simp_all

lemma try_map_Inr_map: "try_map f xs = Inr ys \<Longrightarrow> map f xs = map Inr ys"
  by (induction xs arbitrary: ys) (auto split: sum.splits)

lemma try_map_Inr_set:
  assumes "try_map f xs = Inr ys" and "y \<in> set ys"
  shows "\<exists>x \<in> set xs. f x = Inr y"
proof -
  have "Inr y \<in> set (map f xs)"
    using assms by (simp add: try_map_Inr_map)
  then show ?thesis by auto
qed

lemma try_map_total:
  "\<forall>x \<in> set xs. f x = Inr (g x) \<Longrightarrow> try_map f xs = Inr (map g xs)"
  by (induction xs) auto

lemma try_map_throws:
  "x \<in> set xs \<Longrightarrow> f x = Inl e \<Longrightarrow> \<exists>e'. try_map f xs = Inl e'"
  by (induction xs) (auto split: sum.splits)

lemma string_properties_row:
  "string_properties names rows \<Longrightarrow> row \<in> set rows \<Longrightarrow> name \<in> set names
     \<Longrightarrow> call_toLowerCase (property row name) = Inr (lowered row name)"
  by (simp add: string_properties_def list_all_iff is_string_lower lowered_def)

section \<open>Properties of aggregateBy\<close>

lemma get_property_update_same:
  "get_property (AList.update key xs result) key = Own xs"
  by (simp add: get_property_def update_conv')

lemma aggregateBy_step_plain:
  assumes "keySelector item \<notin> set Object_prototype_names"
  shows "aggregateBy_step keySelector item result =
           Inr (AList.update (keySelector item)
                  ((case map_of result (keySelector item) of Some xs \<Rightarrow> xs | None \<Rightarrow> []) @ [item])
                  result)"
  using assms
  by (cases "map_of result (keySelector item)")
     (simp_all add: aggregateBy_step_def get_property_def update_conv')

lemma aggregateBy_step_inherited:
  assumes "keySelector item \<in> set Object_prototype_names"
    and "map_of result (keySelector item) = None"
  shows "aggregateBy_step keySelector item result =
           Inl (Error ''result[key].push is not a function'')"
  using assms by (simp add: aggregateBy_step_def get_property_def)

text \<open>
  The loop from any accumulator, for keys that are not names of \<^verbatim>\<open>Object.prototype\<close>
  members: it returns, every key keeps what it had followed by the items of that key in
  input order, and the keys stay distinct.
\<close>

lemma aggregateBy_loop_plain:
  assumes "\<forall>x \<in> set items. keySelector x \<notin> set Object_prototype_names"
  shows "\<exists>m. aggregateBy_loop keySelector items result = Inr m
           \<and> (distinct (map fst result) \<longrightarrow> distinct (map fst m))
           \<and> (\<forall>key. map_of m key =
                 (case map_of result key of
                    Some xs \<Rightarrow> Some (xs @ filter (\<lambda>x. keySelector x = key) items)
                  | None \<Rightarrow> (if filter (\<lambda>x. keySelector x = key) items = [] then None
                             else Some (filter (\<lambda>x. keySelector x = key) items))))"
  using assms
proof (induction items arbitrary: result)
  case Nil
  then show ?case by (auto split: option.splits)
next
  case (Cons item items)
  let ?k = "keySelector item"
  let ?r = "AList.update ?k
              ((case map_of result ?k of Some xs \<Rightarrow> xs | None \<Rightarrow> []) @ [item]) result"
  have step: "aggregateBy_step keySelector item result = Inr ?r"
    using Cons.prems by (simp add: aggregateBy_step_plain)
  have rest: "\<forall>x \<in> set items. keySelector x \<notin> set Object_prototype_names"
    using Cons.prems by simp
  from Cons.IH [OF rest, of ?r] obtain m where
    m: "aggregateBy_loop keySelector items ?r = Inr m"
    and d: "distinct (map fst ?r) \<longrightarrow> distinct (map fst m)"
    and l: "\<forall>key. map_of m key =
                 (case map_of ?r key of
                    Some xs \<Rightarrow> Some (xs @ filter (\<lambda>x. keySelector x = key) items)
                  | None \<Rightarrow> (if filter (\<lambda>x. keySelector x = key) items = [] then None
                             else Some (filter (\<lambda>x. keySelector x = key) items)))"
    by blast
  have "aggregateBy_loop keySelector (item # items) result = Inr m"
    using step m by simp
  moreover have "distinct (map fst result) \<longrightarrow> distinct (map fst m)"
    using d by (simp add: distinct_update)
  moreover have "\<forall>key. map_of m key =
                 (case map_of result key of
                    Some xs \<Rightarrow> Some (xs @ filter (\<lambda>x. keySelector x = key) (item # items))
                  | None \<Rightarrow> (if filter (\<lambda>x. keySelector x = key) (item # items) = [] then None
                             else Some (filter (\<lambda>x. keySelector x = key) (item # items))))"
  proof
    fix key
    show "map_of m key =
                 (case map_of result key of
                    Some xs \<Rightarrow> Some (xs @ filter (\<lambda>x. keySelector x = key) (item # items))
                  | None \<Rightarrow> (if filter (\<lambda>x. keySelector x = key) (item # items) = [] then None
                             else Some (filter (\<lambda>x. keySelector x = key) (item # items))))"
      using l [rule_format, of key]
      by (cases "map_of result key"; cases "?k = key") (simp_all add: update_conv')
  qed
  ultimately show ?case by blast
qed

lemma aggregateBy_plain:
  assumes "\<forall>x \<in> set items. keySelector x \<notin> set Object_prototype_names"
  shows "\<exists>m. aggregateBy items keySelector = Inr m
           \<and> distinct (map fst m)
           \<and> (\<forall>key. map_of m key =
                 (if filter (\<lambda>x. keySelector x = key) items = [] then None
                  else Some (filter (\<lambda>x. keySelector x = key) items)))"
  using aggregateBy_loop_plain [OF assms, of "[]"]
  by (simp add: aggregateBy_def)

text \<open>
  Whenever the loop returns, for any keys: every list of the result is non-empty and holds
  items of the input under their own key.
\<close>

lemma aggregateBy_step_Inr:
  assumes "aggregateBy_step keySelector item result = Inr result'"
  shows "result' = AList.update (keySelector item)
                     ((case map_of result (keySelector item) of Some xs \<Rightarrow> xs | None \<Rightarrow> []) @ [item])
                     result"
proof (cases "map_of result (keySelector item)")
  case None
  show ?thesis
  proof (cases "keySelector item \<in> set Object_prototype_names")
    case True
    with None assms show ?thesis
      by (simp add: aggregateBy_step_inherited)
  next
    case False
    with assms show ?thesis
      by (simp add: aggregateBy_step_plain)
  qed
next
  case (Some xs)
  with assms show ?thesis
    by (auto simp: aggregateBy_step_def get_property_def update_conv')
qed

lemma in_set_update:
  "(key, xs) \<in> set (AList.update k v al) \<Longrightarrow> (key, xs) = (k, v) \<or> (key, xs) \<in> set al"
  by (induction al) (auto split: if_splits)

lemma aggregateBy_loop_members:
  assumes "aggregateBy_loop keySelector items result = Inr m"
    and "\<forall>(key, xs) \<in> set result. xs \<noteq> [] \<and> (\<forall>x \<in> set xs. P x \<and> keySelector x = key)"
    and "\<forall>x \<in> set items. P x"
  shows "\<forall>(key, xs) \<in> set m. xs \<noteq> [] \<and> (\<forall>x \<in> set xs. P x \<and> keySelector x = key)"
  using assms
proof (induction items arbitrary: result)
  case Nil
  then show ?case by simp
next
  case (Cons item items)
  from Cons.prems(1) obtain result' where
    step: "aggregateBy_step keySelector item result = Inr result'"
    and rest: "aggregateBy_loop keySelector items result' = Inr m"
    by (auto split: sum.splits)
  let ?old = "case map_of result (keySelector item) of Some xs \<Rightarrow> xs | None \<Rightarrow> []"
  have result': "result' = AList.update (keySelector item) (?old @ [item]) result"
    using step by (rule aggregateBy_step_Inr)
  have old: "\<forall>x \<in> set ?old. P x \<and> keySelector x = keySelector item"
  proof (cases "map_of result (keySelector item)")
    case None
    then show ?thesis by simp
  next
    case (Some xs)
    then have "(keySelector item, xs) \<in> set result" by (rule map_of_SomeD)
    with Cons.prems(2) Some show ?thesis by auto
  qed
  have "\<forall>(key, xs) \<in> set result'. xs \<noteq> [] \<and> (\<forall>x \<in> set xs. P x \<and> keySelector x = key)"
  proof (clarify)
    fix key xs
    assume mem: "(key, xs) \<in> set result'"
    from mem have "(key, xs) = (keySelector item, ?old @ [item]) \<or> (key, xs) \<in> set result"
      unfolding result' by (rule in_set_update)
    then show "xs \<noteq> [] \<and> (\<forall>x \<in> set xs. P x \<and> keySelector x = key)"
    proof
      assume "(key, xs) = (keySelector item, ?old @ [item])"
      with old Cons.prems(3) show ?thesis by auto
    next
      assume "(key, xs) \<in> set result"
      with Cons.prems(2) show ?thesis by auto
    qed
  qed
  moreover have "\<forall>x \<in> set items. P x"
    using Cons.prems(3) by simp
  ultimately show ?case
    using Cons.IH [OF rest] by blast
qed

lemma aggregateBy_members:
  assumes "aggregateBy items keySelector = Inr m" and "(key, xs) \<in> set m"
  shows "xs \<noteq> [] \<and> (\<forall>x \<in> set xs. x \<in> set items \<and> keySelector x = key)"
  using aggregateBy_loop_members [of keySelector items "[]" m "\<lambda>x. x \<in> set items"] assms
  by (auto simp: aggregateBy_def)

section \<open>Properties of the extraction block\<close>

lemma favorite_uuids_Inr:
  assumes "favorite_uuids r name = Inr us"
  shows "\<exists>rows vs. objects r name = Inr rows
           \<and> try_map (\<lambda>row. call_toLowerCase (property row ''uuid'')) rows = Inr vs
           \<and> us = sort vs"
  using assms by (auto simp: favorite_uuids_def split: sum.splits)

lemma favorite_uuids_sorted: "favorite_uuids r name = Inr us \<Longrightarrow> sorted us"
  by (auto dest!: favorite_uuids_Inr)

lemma favorite_uuids_lower:
  assumes "favorite_uuids r name = Inr us" and "u \<in> set us"
  shows "toLowerCase u = u"
proof -
  from favorite_uuids_Inr [OF assms(1)] obtain rows vs where
    vs: "try_map (\<lambda>row. call_toLowerCase (property row ''uuid'')) rows = Inr vs"
    and us: "us = sort vs"
    by blast
  from assms(2) us have "u \<in> set vs" by simp
  with try_map_Inr_set [OF vs] obtain row where
    "call_toLowerCase (property row ''uuid'') = Inr u"
    by blast
  then show ?thesis by (rule call_toLowerCase_lower)
qed

lemma favorite_uuids_distinct:
  assumes "favorite_uuids r name = Inr us" and "case_insensitive_unique r name"
  shows "distinct us"
proof -
  from favorite_uuids_Inr [OF assms(1)] obtain rows vs where
    rows: "objects r name = Inr rows"
    and vs: "try_map (\<lambda>row. call_toLowerCase (property row ''uuid'')) rows = Inr vs"
    and us: "us = sort vs"
    by blast
  have "distinct (map (\<lambda>row. call_toLowerCase (property row ''uuid'')) rows)"
    using assms(2) rows by (simp add: case_insensitive_unique_def)
  then have "distinct (map (Inr :: string \<Rightarrow> thrown + string) vs)"
    by (simp only: try_map_Inr_map [OF vs])
  then have "distinct vs"
    by (simp add: distinct_map)
  then show ?thesis by (simp add: us)
qed

lemma favorite_uuids_typed:
  assumes "objects r name = Inr rows" and "string_properties [''uuid''] rows"
  shows "favorite_uuids r name = Inr (sort (map (\<lambda>row. lowered row ''uuid'') rows))"
proof -
  have "try_map (\<lambda>row. call_toLowerCase (property row ''uuid'')) rows
          = Inr (map (\<lambda>row. lowered row ''uuid'') rows)"
    using assms(2) by (intro try_map_total) (simp add: string_properties_row)
  then show ?thesis using assms(1) by (simp add: favorite_uuids_def)
qed

lemma source_of_lower:
  assumes "source_of row = Inr s"
  shows "toLowerCase (uuid s) = uuid s
       \<and> toLowerCase (source_record.artist_uuid s) = source_record.artist_uuid s
       \<and> toLowerCase (source_record.show_uuid s) = source_record.show_uuid s"
  using assms
  by (auto simp: source_of_def call_toLowerCase_lower split: sum.splits)

lemma favorite_sources_lower:
  assumes "favorite_sources r = Inr ss" and "s \<in> set ss"
  shows "toLowerCase (uuid s) = uuid s
       \<and> toLowerCase (source_record.artist_uuid s) = source_record.artist_uuid s
       \<and> toLowerCase (source_record.show_uuid s) = source_record.show_uuid s"
proof -
  from assms(1) obtain rows where "try_map source_of rows = Inr ss"
    by (auto simp: favorite_sources_def split: sum.splits)
  from try_map_Inr_set [OF this assms(2)] obtain row where "source_of row = Inr s"
    by blast
  then show ?thesis by (rule source_of_lower)
qed

lemma favorite_sources_typed:
  assumes "objects r ''FavoritedSource'' = Inr rows"
    and "string_properties [''uuid'', ''artist_uuid'', ''show_uuid''] rows"
  shows "favorite_sources r = Inr (map normal_source rows)"
proof -
  have "source_of row = Inr (normal_source row)" if "row \<in> set rows" for row
    using string_properties_row [OF assms(2) that]
    by (simp add: source_of_def normal_source_def)
  then have "try_map source_of rows = Inr (map normal_source rows)"
    by (intro try_map_total) simp
  then show ?thesis using assms(1) by (simp add: favorite_sources_def)
qed

lemma offline_track_of_lower:
  assumes "offline_track_of row = Inr t"
  shows "toLowerCase (track_uuid t) = track_uuid t
       \<and> toLowerCase (artist_uuid t) = artist_uuid t
       \<and> toLowerCase (show_uuid t) = show_uuid t
       \<and> toLowerCase (source_uuid t) = source_uuid t"
  using assms
  by (auto simp: offline_track_of_def call_toLowerCase_lower split: sum.splits)

lemma offline_by_source_nonempty:
  assumes "offline_by_source r = Inr m" and "(key, ts) \<in> set m"
  shows "ts \<noteq> []"
proof -
  from assms(1) obtain tracks where "aggregateBy tracks source_uuid = Inr m"
    by (auto simp: offline_by_source_def split: sum.splits)
  from aggregateBy_members [OF this assms(2)] show ?thesis by simp
qed

lemma offline_by_source_lower:
  assumes "offline_by_source r = Inr m" and "(key, ts) \<in> set m" and "t \<in> set ts"
  shows "source_uuid t = key
       \<and> toLowerCase (track_uuid t) = track_uuid t
       \<and> toLowerCase (artist_uuid t) = artist_uuid t
       \<and> toLowerCase (show_uuid t) = show_uuid t
       \<and> toLowerCase (source_uuid t) = source_uuid t"
proof -
  from assms(1) obtain tracks where
    tracks: "downloadedTracks r = Inr tracks" and m: "aggregateBy tracks source_uuid = Inr m"
    by (auto simp: offline_by_source_def split: sum.splits)
  from aggregateBy_members [OF m assms(2)] assms(3)
  have t: "t \<in> set tracks" and key: "source_uuid t = key"
    by simp_all
  from tracks obtain rows where "try_map offline_track_of rows = Inr tracks"
    by (auto simp: downloadedTracks_def split: sum.splits)
  from try_map_Inr_set [OF this t] obtain row where "offline_track_of row = Inr t"
    by blast
  from offline_track_of_lower [OF this] key show ?thesis by simp
qed

lemma downloadedTracks_typed:
  assumes "objects r ''OfflineTrack'' = Inr rows"
    and "string_properties [''track_uuid'', ''artist_uuid'', ''show_uuid'', ''source_uuid'']
           (filter is_downloaded rows)"
  shows "downloadedTracks r = Inr (map normal_track (filter is_downloaded rows))"
proof -
  have "offline_track_of row = Inr (normal_track row)"
    if "row \<in> set (filter is_downloaded rows)" for row
    using string_properties_row [OF assms(2) that]
    by (simp add: offline_track_of_def normal_track_def)
  then have "try_map offline_track_of (filter is_downloaded rows)
               = Inr (map normal_track (filter is_downloaded rows))"
    by (intro try_map_total) simp
  then show ?thesis using assms(1) by (simp add: downloadedTracks_def)
qed

text \<open>The fields of the snapshot, by the outcome of the five statements.\<close>

lemma try_extract_fields:
  fixes r v
  defines "d \<equiv> snd (try_extract r (initial_legacyData v))"
  shows "trackUuids d = collected (favorite_uuids r ''FavoritedTrack'')"
    and "showUuids d =
           (if readable (favorite_uuids r ''FavoritedTrack'')
            then collected (favorite_uuids r ''FavoritedShow'') else [])"
    and "sources d =
           (if readable (favorite_uuids r ''FavoritedTrack'')
               \<and> readable (favorite_uuids r ''FavoritedShow'')
            then collected (favorite_sources r) else [])"
    and "artistUuids d =
           (if readable (favorite_uuids r ''FavoritedTrack'')
               \<and> readable (favorite_uuids r ''FavoritedShow'')
               \<and> readable (favorite_sources r)
            then collected (favorite_uuids r ''FavoritedArtist'') else [])"
    and "offlineTracksBySource d =
           (if readable (favorite_uuids r ''FavoritedTrack'')
               \<and> readable (favorite_uuids r ''FavoritedShow'')
               \<and> readable (favorite_sources r)
               \<and> readable (favorite_uuids r ''FavoritedArtist'')
            then collected (offline_by_source r) else [])"
    and "schemaVersion d = v"
  unfolding d_def
  by (cases "favorite_uuids r ''FavoritedTrack''"; cases "favorite_uuids r ''FavoritedShow''";
      cases "favorite_sources r"; cases "favorite_uuids r ''FavoritedArtist''";
      cases "offline_by_source r";
      simp add: try_extract_def initial_legacyData_def collected_def readable_def)+

lemma try_extract_cong:
  assumes "\<forall>name \<in> set read_tables. objects r1 name = objects r2 name"
  shows "try_extract r1 d = try_extract r2 d"
proof -
  have eq: "favorite_uuids r1 ''FavoritedTrack'' = favorite_uuids r2 ''FavoritedTrack''"
    "favorite_uuids r1 ''FavoritedShow'' = favorite_uuids r2 ''FavoritedShow''"
    "favorite_uuids r1 ''FavoritedArtist'' = favorite_uuids r2 ''FavoritedArtist''"
    "favorite_sources r1 = favorite_sources r2"
    "offline_by_source r1 = offline_by_source r2"
    using assms
    by (simp_all add: read_tables_def favorite_uuids_def favorite_sources_def
          offline_by_source_def downloadedTracks_def)
  show ?thesis unfolding try_extract_def eq ..
qed

section \<open>Properties of the handler\<close>

lemma opened_Some: "opened file = Some r \<Longrightarrow> fst (open_realm file) = Inr r"
  by (simp add: opened_def split: sum.splits)

lemma opened_None: "opened file = None \<Longrightarrow> \<exists>e. fst (open_realm file) = Inl e"
  by (simp add: opened_def split: sum.splits)

lemma opened_None_iff:
  "opened file = None \<longleftrightarrow> (\<exists>e e'. open_full file = Inl e \<and> open_schemaless file = Inl e')"
  by (auto simp: opened_def open_realm_def split: sum.splits)

lemma close_and_respond_events: "snd (close_and_respond env d) = [CloseRealm]"
  by (simp add: close_and_respond_def split: option.splits)

lemma fst_close_and_respond:
  "fst (close_and_respond env d) =
     (case unexpected env AtClose of
        Some e \<Rightarrow> Inl e
      | None \<Rightarrow> (case unexpected env AtJson of
                   Some e \<Rightarrow> Inl e
                 | None \<Rightarrow> Inr (SuccessBody d (isEmpty d), 200)))"
  by (simp add: close_and_respond_def split: option.splits)

lemma count_close_extract_and_respond:
  "count_list (snd (extract_and_respond env r)) CloseRealm =
     (if unexpected env AtSchemaVersion = None
         \<and> (fst (try_extract r (initial_legacyData (realm_schemaVersion r))) = None
              \<or> unexpected env AtWarn = None)
      then 1 else 0)"
  by (cases "try_extract r (initial_legacyData (realm_schemaVersion r))")
     (simp add: extract_and_respond_def close_and_respond_events split: option.splits)

lemma count_close_open_realm: "count_list (snd (open_realm file)) CloseRealm = 0"
  by (simp add: open_realm_def split: sum.splits)

lemma run_with_file_opened:
  assumes "opened file = Some r"
    and "unexpected env AtArrayBuffer = None" and "unexpected env AtWriteFile = None"
  shows "run_with_file env file =
           (fst (extract_and_respond env r),
            WriteTemp # snd (open_realm file) @ snd (extract_and_respond env r))"
  using opened_Some [OF assms(1)] assms(2,3)
  by (cases "open_realm file") (simp add: run_with_file_def)

lemma migrate_with_file:
  assumes "database env = Some file" and "unexpected env AtFormData = None"
  shows "migrate env =
           (case fst (run_with_file env file) of
              Inr response \<Rightarrow> (response, snd (run_with_file env file) @ [UnlinkTemp])
            | Inl e \<Rightarrow> (failure_response e, snd (run_with_file env file) @ [LogError, UnlinkTemp]))"
  using assms
  by (cases "run_with_file env file") (simp add: migrate_def split: sum.splits)

lemma fst_extract_and_respond_cong:
  assumes "unexpected env1 = unexpected env2"
    and "try_extract r1 (initial_legacyData (realm_schemaVersion r1))
       = try_extract r2 (initial_legacyData (realm_schemaVersion r2))"
  shows "fst (extract_and_respond env1 r1) = fst (extract_and_respond env2 r2)"
  using assms
  by (cases "try_extract r2 (initial_legacyData (realm_schemaVersion r2))")
     (simp add: extract_and_respond_def fst_close_and_respond split: option.splits)

lemma fst_migrate_opened:
  assumes "database env = Some file" and "opened file = Some r"
  shows "fst (migrate env) =
           (case unexpected env AtFormData of
              Some e \<Rightarrow> failure_response e
            | None \<Rightarrow>
           (case unexpected env AtArrayBuffer of
              Some e \<Rightarrow> failure_response e
            | None \<Rightarrow>
           (case unexpected env AtWriteFile of
              Some e \<Rightarrow> failure_response e
            | None \<Rightarrow>
           (case fst (extract_and_respond env r) of
              Inr response \<Rightarrow> response
            | Inl e \<Rightarrow> failure_response e))))"
proof (cases "unexpected env AtFormData")
  case (Some e)
  then show ?thesis by (simp add: migrate_def)
next
  case None
  note form = this
  show ?thesis
  proof (cases "unexpected env AtArrayBuffer")
    case (Some e)
    then show ?thesis
      by (simp add: migrate_with_file [OF assms(1) form] run_with_file_def form)
  next
    case None
    note buf = this
    show ?thesis
    proof (cases "unexpected env AtWriteFile")
      case (Some e)
      then show ?thesis
        by (simp add: migrate_with_file [OF assms(1) form] run_with_file_def form buf)
    next
      case None
      then show ?thesis
        by (simp add: migrate_with_file [OF assms(1) form]
              run_with_file_opened [OF assms(2) buf None] form buf split: sum.splits)
    qed
  qed
qed

lemma migrate_success:
  assumes "fst (migrate env) = (SuccessBody d e, status)"
  shows "\<exists>file r. database env = Some file \<and> opened file = Some r
           \<and> d = snd (try_extract r (initial_legacyData (realm_schemaVersion r)))
           \<and> e = isEmpty d \<and> status = 200"
  using assms
  by (auto simp: migrate_def run_with_file_def extract_and_respond_def close_and_respond_def
        opened_def failure_response_def missing_input_response_def unreadable_response_def
      split: option.splits sum.splits prod.splits)

lemma migrate_no_unexpected:
  assumes "database env = Some file" and "no_unexpected env" and "opened file = Some r"
  shows "fst (migrate env) =
           (SuccessBody (snd (try_extract r (initial_legacyData (realm_schemaVersion r))))
              (isEmpty (snd (try_extract r (initial_legacyData (realm_schemaVersion r))))), 200)"
  using assms
  by (auto simp: migrate_def run_with_file_def extract_and_respond_def close_and_respond_def
        opened_def no_unexpected_def
      split: option.splits sum.splits prod.splits)

lemma migrate_unreadable:
  assumes "database env = Some file"
    and "unexpected env AtFormData = None" and "unexpected env AtArrayBuffer = None"
    and "unexpected env AtWriteFile = None"
  shows "fst (migrate env) = unreadable_response \<longleftrightarrow> opened file = None"
proof (cases "opened file")
  case None
  then obtain e where "fst (open_realm file) = Inl e"
    using opened_None by blast
  then have "fst (run_with_file env file) = Inr unreadable_response"
    using assms(3,4) by (cases "open_realm file") (simp add: run_with_file_def)
  then show ?thesis
    using None by (simp add: migrate_with_file [OF assms(1,2)])
next
  case (Some r)
  have "fst (extract_and_respond env r) \<noteq> Inr unreadable_response"
    by (cases "try_extract r (initial_legacyData (realm_schemaVersion r))")
       (simp add: extract_and_respond_def fst_close_and_respond unreadable_response_def
          split: option.splits)
  moreover have "failure_response e \<noteq> unreadable_response" for e
    by (simp add: failure_response_def unreadable_response_def)
  ultimately show ?thesis
    using Some
    by (cases "fst (extract_and_respond env r)")
       (simp_all add: migrate_with_file [OF assms(1,2)] run_with_file_opened [OF Some assms(3,4)])
qed

lemma close_count:
  assumes "database env = Some file" and "opened file = Some r"
    and "unexpected env AtFormData = None" and "unexpected env AtArrayBuffer = None"
    and "unexpected env AtWriteFile = None"
  shows "count_list (snd (migrate env)) CloseRealm =
           (if unexpected env AtSchemaVersion = None
               \<and> (fst (try_extract r (initial_legacyData (realm_schemaVersion r))) = None
                    \<or> unexpected env AtWarn = None)
            then 1 else 0)"
proof -
  have "count_list (snd (migrate env)) CloseRealm
          = count_list (snd (extract_and_respond env r)) CloseRealm"
    by (simp add: migrate_with_file [OF assms(1,3)] run_with_file_opened [OF assms(2,4,5)]
          count_close_open_realm split: sum.splits)
  then show ?thesis by (simp only: count_close_extract_and_respond)
qed

section \<open>The example runs\<close>

lemma migrate_test_env:
  "migrate test_env =
     ((SuccessBody test_snapshot False, 200),
      [WriteTemp, OpenRealm FullSchema True, CloseRealm, UnlinkTemp])"
  by code_simp

lemma migrate_legacy_env:
  "migrate legacy_env =
     ((SuccessBody legacy_snapshot False, 200),
      [WriteTemp, OpenRealm FullSchema False, OpenRealm Schemaless True, LogWarn, CloseRealm,
       UnlinkTemp])"
  by code_simp

lemma migrate_garbage_env:
  "migrate garbage_env =
     (unreadable_response,
      [WriteTemp, OpenRealm FullSchema False, OpenRealm Schemaless False, LogError, UnlinkTemp])"
  by code_simp

lemma migrate_no_show_env:
  "migrate no_show_env =
     ((SuccessBody no_show_snapshot False, 200),
      [WriteTemp, OpenRealm FullSchema False, OpenRealm Schemaless True, LogWarn, CloseRealm,
       UnlinkTemp])"
  by code_simp

lemma migrate_dup_env:
  "migrate dup_env =
     ((SuccessBody dup_snapshot False, 200),
      [WriteTemp, OpenRealm FullSchema True, CloseRealm, UnlinkTemp])"
  by code_simp

lemma opened_examples:
  "opened test_file = Some test_realm"
  "opened test_file_more = Some test_realm_more"
  "opened legacy_file = Some legacy_realm"
  "opened no_show_file = Some no_show_realm"
  "opened garbage_file = None"
  "opened older_file = Some older_realm"
  by code_simp+

lemma no_unexpected_calm: "no_unexpected \<lparr>database = file, unexpected = calm\<rparr>"
  by (simp add: no_unexpected_def calm_def)

lemma offline_by_source_offline_realm:
  "offline_by_source offline_realm =
     Inr [(''source-b'', [offline_track ''t1'' ''source-b'', offline_track ''t4'' ''source-b'']),
          (''source-a'', [offline_track ''t3'' ''source-a''])]"
  by code_simp

lemma offline_by_source_partial_realm:
  "offline_by_source partial_realm = Inl (Error ''Cannot read properties of undefined'')"
  by code_simp

section \<open>The claims\<close>

subsection \<open>C1: the entity kinds share one try block\<close>

lemma favorite_uuids_no_show_realm:
  "favorite_uuids no_show_realm ''FavoritedTrack'' = Inr [''track-101'', ''track-202'']"
  "favorite_uuids no_show_realm ''FavoritedShow''
     = Inl (Error ''Object type not found in schema: FavoritedShow'')"
  "favorite_uuids no_show_realm ''FavoritedArtist'' = Inr [''artist-123'']"
  "favorite_sources no_show_realm = Inr [test_source]"
  by code_simp+

text \<open>
  C1 as claimed: the five entity kinds are extracted independently, so that a kind that
  cannot be read leaves every other kind populated. The handler reads the kinds in the
  order FavoritedTrack, FavoritedShow, FavoritedSource, FavoritedArtist, OfflineTrack
  inside a single \<^verbatim>\<open>try\<close>, so the first failure skips every later kind. In the store
  without a FavoritedShow table the artists and the sources can be read, and the response
  holds neither.
\<close>

theorem independent_extraction_counterexample:
  "favorite_uuids no_show_realm ''FavoritedShow''
     = Inl (Error ''Object type not found in schema: FavoritedShow'')
   \<and> favorite_uuids no_show_realm ''FavoritedArtist'' = Inr [''artist-123'']
   \<and> favorite_sources no_show_realm = Inr [test_source]
   \<and> fst (migrate no_show_env) = (SuccessBody no_show_snapshot False, 200)
   \<and> artistUuids no_show_snapshot = []
   \<and> sources no_show_snapshot = []"
  by (simp add: favorite_uuids_no_show_realm migrate_no_show_env no_show_snapshot_def)

text \<open>
  C1, amended: for every successfully opened store, in a run without unexpected failure,
  the response is the success response with status 200, and a kind's collection is
  populated from the store exactly when that kind and every kind before it (in the order
  FavoritedTrack, FavoritedShow, FavoritedSource, FavoritedArtist, OfflineTrack) can be
  read; the first kind that fails and every kind after it are empty in the result, and no
  error is surfaced to the caller.
\<close>

theorem extraction_stops_at_first_failure:
  assumes "database env = Some file" and "opened file = Some r" and "no_unexpected env"
  shows "\<exists>d e. fst (migrate env) = (SuccessBody d e, 200)
           \<and> trackUuids d = collected (favorite_uuids r ''FavoritedTrack'')
           \<and> showUuids d =
               (if readable (favorite_uuids r ''FavoritedTrack'')
                then collected (favorite_uuids r ''FavoritedShow'') else [])
           \<and> sources d =
               (if readable (favorite_uuids r ''FavoritedTrack'')
                   \<and> readable (favorite_uuids r ''FavoritedShow'')
                then collected (favorite_sources r) else [])
           \<and> artistUuids d =
               (if readable (favorite_uuids r ''FavoritedTrack'')
                   \<and> readable (favorite_uuids r ''FavoritedShow'')
                   \<and> readable (favorite_sources r)
                then collected (favorite_uuids r ''FavoritedArtist'') else [])
           \<and> offlineTracksBySource d =
               (if readable (favorite_uuids r ''FavoritedTrack'')
                   \<and> readable (favorite_uuids r ''FavoritedShow'')
                   \<and> readable (favorite_sources r)
                   \<and> readable (favorite_uuids r ''FavoritedArtist'')
                then collected (offline_by_source r) else [])"
proof -
  let ?d = "snd (try_extract r (initial_legacyData (realm_schemaVersion r)))"
  have "fst (migrate env) = (SuccessBody ?d (isEmpty ?d), 200)"
    using assms(1,3,2) by (rule migrate_no_unexpected)
  then show ?thesis
    using try_extract_fields(1-5) [of r "realm_schemaVersion r"] by blast
qed

theorem extraction_stops_at_first_failure_witness:
  "database no_show_env = Some no_show_file
   \<and> opened no_show_file = Some no_show_realm
   \<and> no_unexpected no_show_env
   \<and> (\<exists>d e. fst (migrate no_show_env) = (SuccessBody d e, 200)
         \<and> trackUuids d = [''track-101'', ''track-202'']
         \<and> showUuids d = [] \<and> sources d = [] \<and> artistUuids d = []
         \<and> offlineTracksBySource d = [])"
proof -
  have h1: "database no_show_env = Some no_show_file"
    by (simp add: no_show_env_def)
  have h2: "opened no_show_file = Some no_show_realm"
    by (simp add: opened_examples)
  have h3: "no_unexpected no_show_env"
    by (simp add: no_show_env_def no_unexpected_calm)
  show ?thesis
    using h1 h2 h3 extraction_stops_at_first_failure [OF h1 h2 h3]
    by (simp add: favorite_uuids_no_show_realm collected_def readable_def)
qed

subsection \<open>C2: the handle is closed only on the paths that reach the close statement\<close>

text \<open>
  The number of \<^verbatim>\<open>realm.close()\<close> calls of a run that opened the store: one when control
  reaches line 213, none when a statement between the open and the close throws.
\<close>

lemma close_count_after_open:
  assumes "database env = Some file" and "opened file = Some r"
    and "unexpected env AtFormData = None" and "unexpected env AtArrayBuffer = None"
    and "unexpected env AtWriteFile = None"
    and "unexpected env AtSchemaVersion = None" and "unexpected env AtWarn = None"
  shows "count_list (snd (migrate env)) CloseRealm = 1"
  using close_count [OF assms(1-5)] assms(6,7) by simp

text \<open>
  C2 as claimed: after every successful open the handle is released exactly once on every
  exit path, also when an unexpected error causes the 500 response. The close call is the
  statement after the inner \<^verbatim>\<open>try\<close>; neither the outer \<^verbatim>\<open>catch\<close> nor the \<^verbatim>\<open>finally\<close>
  (which removes the temporary file) closes the handle. In the run below the store opens
  with the declared schema, the next statement throws, and the handler answers 500 and
  removes the temporary file without any close.
\<close>

theorem close_skipped_on_unexpected_error:
  "migrate fault_env =
     ((FailureBody ''Database parsing failed'' ''out of memory'', 500),
      [WriteTemp, OpenRealm FullSchema True, LogError, UnlinkTemp])"
  by code_simp

subsection \<open>C3: the favorite lists are sorted; duplicates survive lowercasing\<close>

text \<open>
  C3 as claimed: the three identifier lists are sorted and contain no duplicates. The
  lists are lowercased and sorted but never deduplicated: two primary keys that differ
  only in case are different rows of the store and the same identifier in the output.
\<close>

theorem no_duplicates_counterexample:
  "primaryKey_unique ''uuid'' dup_rows
   \<and> objects dup_realm ''FavoritedTrack'' = Inr dup_rows
   \<and> fst (migrate dup_env) = (SuccessBody dup_snapshot False, 200)
   \<and> trackUuids dup_snapshot = [''abc'', ''abc'']
   \<and> \<not> distinct (trackUuids dup_snapshot)"
proof -
  have "primaryKey_unique ''uuid'' dup_rows"
    by code_simp
  moreover have "objects dup_realm ''FavoritedTrack'' = Inr dup_rows"
    by (simp add: objects_def dup_realm_def)
  ultimately show ?thesis
    by (simp add: migrate_dup_env dup_snapshot_def)
qed

text \<open>
  C3, amended: for every valid input store the lists trackUuids, showUuids and artistUuids
  are each sorted in ascending lexicographic order (after lowercasing); a list contains no
  duplicate whenever the primary keys of its table are pairwise different after
  lowercasing.
\<close>

theorem favorite_lists_sorted:
  assumes "database env = Some file" and "opened file = Some r"
    and "fst (migrate env) = (SuccessBody d e, status)"
  shows "sorted (trackUuids d) \<and> sorted (showUuids d) \<and> sorted (artistUuids d)
       \<and> (case_insensitive_unique r ''FavoritedTrack'' \<longrightarrow> distinct (trackUuids d))
       \<and> (case_insensitive_unique r ''FavoritedShow'' \<longrightarrow> distinct (showUuids d))
       \<and> (case_insensitive_unique r ''FavoritedArtist'' \<longrightarrow> distinct (artistUuids d))"
proof -
  from migrate_success [OF assms(3)] assms(1,2)
  have d: "d = snd (try_extract r (initial_legacyData (realm_schemaVersion r)))"
    by auto
  have s: "sorted (collected (favorite_uuids r name))" for name
    using favorite_uuids_sorted [of r name]
    by (cases "favorite_uuids r name") (simp_all add: collected_def)
  have u: "distinct (collected (favorite_uuids r name))"
    if "case_insensitive_unique r name" for name
    using favorite_uuids_distinct [of r name] that
    by (cases "favorite_uuids r name") (simp_all add: collected_def)
  show ?thesis
    unfolding d by (simp add: try_extract_fields s u)
qed

theorem favorite_lists_sorted_witness:
  "fst (migrate test_env) = (SuccessBody test_snapshot False, 200)
   \<and> case_insensitive_unique test_realm ''FavoritedTrack''
   \<and> case_insensitive_unique test_realm ''FavoritedShow''
   \<and> case_insensitive_unique test_realm ''FavoritedArtist''
   \<and> trackUuids test_snapshot = [''track-101'', ''track-202'']
   \<and> sorted (trackUuids test_snapshot) \<and> distinct (trackUuids test_snapshot)
   \<and> sorted (showUuids test_snapshot) \<and> distinct (showUuids test_snapshot)
   \<and> sorted (artistUuids test_snapshot) \<and> distinct (artistUuids test_snapshot)"
proof -
  have h1: "database test_env = Some test_file"
    by (simp add: test_env_def)
  have h2: "opened test_file = Some test_realm"
    by (simp add: opened_examples)
  have h3: "fst (migrate test_env) = (SuccessBody test_snapshot False, 200)"
    by (simp add: migrate_test_env)
  have u: "case_insensitive_unique test_realm ''FavoritedTrack''"
    "case_insensitive_unique test_realm ''FavoritedShow''"
    "case_insensitive_unique test_realm ''FavoritedArtist''"
    by code_simp+
  have "trackUuids test_snapshot = [''track-101'', ''track-202'']"
    by (simp add: test_snapshot_def)
  then show ?thesis
    using h3 u favorite_lists_sorted [OF h1 h2 h3] by simp
qed

subsection \<open>C4: downloaded offline tracks grouped by source\<close>

text \<open>
  C4 as claimed: for every OfflineTrack list read from the store the mapping holds exactly
  the records whose state is 3. The normalisation of a downloaded row throws when one of
  its identifiers is not a string (a row of an older file without \<^verbatim>\<open>show_uuid\<close>, say);
  the throw is caught by the \<^verbatim>\<open>catch\<close> of the extraction block and the mapping stays
  empty, although the list holds downloaded records.
\<close>

theorem downloaded_tracks_counterexample:
  "objects partial_realm ''OfflineTrack'' = Inr partial_rows
   \<and> filter is_downloaded partial_rows = partial_rows
   \<and> offline_by_source partial_realm = Inl (Error ''Cannot read properties of undefined'')
   \<and> try_extract partial_realm (initial_legacyData 3)
       = (Some (Error ''Cannot read properties of undefined''), initial_legacyData 3)
   \<and> offlineTracksBySource (initial_legacyData 3) = []"
proof -
  have "objects partial_realm ''OfflineTrack'' = Inr partial_rows"
    by (simp add: objects_def partial_realm_def)
  moreover have "filter is_downloaded partial_rows = partial_rows"
    by code_simp
  moreover have "try_extract partial_realm (initial_legacyData 3)
       = (Some (Error ''Cannot read properties of undefined''), initial_legacyData 3)"
    by code_simp
  ultimately show ?thesis
    by (simp add: offline_by_source_partial_realm initial_legacyData_def)
qed

text \<open>
  C4, amended: for every OfflineTrack list read from the store whose downloaded rows
  (state 3) carry strings in \<^verbatim>\<open>track_uuid\<close>, \<^verbatim>\<open>artist_uuid\<close>, \<^verbatim>\<open>show_uuid\<close> and
  \<^verbatim>\<open>source_uuid\<close>, and whose lowercased \<^verbatim>\<open>source_uuid\<close> values are not names of
  \<^verbatim>\<open>Object.prototype\<close> members, the mapping computed for offlineTracksBySource contains
  exactly the normalised records whose state equals 3, each in the list keyed by its
  lowercased \<^verbatim>\<open>source_uuid\<close>, each list in the order of the filtered input, with distinct
  keys and no key for an empty list; it is the offlineTracksBySource of the snapshot
  whenever the four favorites kinds before it can be read.
\<close>

theorem downloaded_tracks_grouped_by_source:
  assumes "objects r ''OfflineTrack'' = Inr rows"
    and "string_properties [''track_uuid'', ''artist_uuid'', ''show_uuid'', ''source_uuid'']
           (filter is_downloaded rows)"
    and "\<forall>row \<in> set (filter is_downloaded rows).
           lowered row ''source_uuid'' \<notin> set Object_prototype_names"
  shows "\<exists>m. offline_by_source r = Inr m
           \<and> distinct (map fst m)
           \<and> (\<forall>key. map_of m key =
                 (if filter (\<lambda>t. source_uuid t = key)
                       (map normal_track (filter is_downloaded rows)) = []
                  then None
                  else Some (filter (\<lambda>t. source_uuid t = key)
                               (map normal_track (filter is_downloaded rows)))))
           \<and> (readable (favorite_uuids r ''FavoritedTrack'')
                \<and> readable (favorite_uuids r ''FavoritedShow'')
                \<and> readable (favorite_sources r)
                \<and> readable (favorite_uuids r ''FavoritedArtist'')
              \<longrightarrow> offlineTracksBySource (snd (try_extract r (initial_legacyData v))) = m)"
proof -
  let ?tracks = "map normal_track (filter is_downloaded rows)"
  have "\<forall>t \<in> set ?tracks. source_uuid t \<notin> set Object_prototype_names"
    using assms(3) by (auto simp: normal_track_def)
  from aggregateBy_plain [OF this] obtain m where
    m: "aggregateBy ?tracks source_uuid = Inr m" "distinct (map fst m)"
    and l: "\<forall>key. map_of m key =
                 (if filter (\<lambda>t. source_uuid t = key) ?tracks = [] then None
                  else Some (filter (\<lambda>t. source_uuid t = key) ?tracks))"
    by blast
  have off: "offline_by_source r = Inr m"
    using m(1) by (simp add: offline_by_source_def downloadedTracks_typed [OF assms(1,2)])
  have "readable (favorite_uuids r ''FavoritedTrack'')
          \<and> readable (favorite_uuids r ''FavoritedShow'')
          \<and> readable (favorite_sources r)
          \<and> readable (favorite_uuids r ''FavoritedArtist'')
        \<longrightarrow> offlineTracksBySource (snd (try_extract r (initial_legacyData v))) = m"
    by (simp add: try_extract_fields off collected_def)
  with off m(2) l show ?thesis by blast
qed

lemma downloaded_offline_rows:
  "map normal_track (filter is_downloaded offline_rows) =
     [offline_track ''t1'' ''source-b'', offline_track ''t3'' ''source-a'',
      offline_track ''t4'' ''source-b'']"
  by code_simp

lemma favorites_of_offline_realm:
  "readable (favorite_uuids offline_realm ''FavoritedTrack'')"
  "readable (favorite_uuids offline_realm ''FavoritedShow'')"
  "readable (favorite_sources offline_realm)"
  "readable (favorite_uuids offline_realm ''FavoritedArtist'')"
  by code_simp+

theorem downloaded_tracks_grouped_by_source_witness:
  "objects offline_realm ''OfflineTrack'' = Inr offline_rows
   \<and> string_properties [''track_uuid'', ''artist_uuid'', ''show_uuid'', ''source_uuid'']
        (filter is_downloaded offline_rows)
   \<and> list_all (\<lambda>row. lowered row ''source_uuid'' \<notin> set Object_prototype_names)
        (filter is_downloaded offline_rows)
   \<and> (\<exists>m. offline_by_source offline_realm = Inr m
         \<and> distinct (map fst m)
         \<and> map_of m ''source-b''
             = Some [offline_track ''t1'' ''source-b'', offline_track ''t4'' ''source-b'']
         \<and> map_of m ''source-a'' = Some [offline_track ''t3'' ''source-a'']
         \<and> map_of m ''source-c'' = None
         \<and> offlineTracksBySource (snd (try_extract offline_realm (initial_legacyData 9))) = m)"
proof -
  have h1: "objects offline_realm ''OfflineTrack'' = Inr offline_rows"
    by (simp add: objects_def offline_realm_def)
  have h2: "string_properties [''track_uuid'', ''artist_uuid'', ''show_uuid'', ''source_uuid'']
              (filter is_downloaded offline_rows)"
    by code_simp
  have h3: "list_all (\<lambda>row. lowered row ''source_uuid'' \<notin> set Object_prototype_names)
              (filter is_downloaded offline_rows)"
    by code_simp
  then have h3': "\<forall>row \<in> set (filter is_downloaded offline_rows).
                    lowered row ''source_uuid'' \<notin> set Object_prototype_names"
    by (simp only: list_all_iff)
  from downloaded_tracks_grouped_by_source [OF h1 h2 h3', of 9] obtain m where
    m: "offline_by_source offline_realm = Inr m" "distinct (map fst m)"
    and l: "\<And>key. map_of m key =
                 (if filter (\<lambda>t. source_uuid t = key)
                       (map normal_track (filter is_downloaded offline_rows)) = []
                  then None
                  else Some (filter (\<lambda>t. source_uuid t = key)
                               (map normal_track (filter is_downloaded offline_rows))))"
    and s: "readable (favorite_uuids offline_realm ''FavoritedTrack'')
              \<and> readable (favorite_uuids offline_realm ''FavoritedShow'')
              \<and> readable (favorite_sources offline_realm)
              \<and> readable (favorite_uuids offline_realm ''FavoritedArtist'')
            \<longrightarrow> offlineTracksBySource (snd (try_extract offline_realm (initial_legacyData 9))) = m"
    by blast
  have "map_of m ''source-b''
          = Some [offline_track ''t1'' ''source-b'', offline_track ''t4'' ''source-b'']"
    "map_of m ''source-a'' = Some [offline_track ''t3'' ''source-a'']"
    "map_of m ''source-c'' = None"
    by (simp_all add: l downloaded_offline_rows offline_track_def)
  moreover have "offlineTracksBySource (snd (try_extract offline_realm (initial_legacyData 9))) = m"
    using s favorites_of_offline_realm by blast
  ultimately show ?thesis using m h1 h2 h3 by blast
qed

subsection \<open>C5: the emptiness flag\<close>

text \<open>
  C5: for every produced snapshot, the response field isEmpty is true if and only if all
  five collections (trackUuids, showUuids, artistUuids, sources and
  offlineTracksBySource) are empty.
\<close>

theorem isEmpty_iff_all_empty:
  assumes "fst (migrate env) = (SuccessBody d e, status)"
  shows "e \<longleftrightarrow> trackUuids d = [] \<and> showUuids d = [] \<and> artistUuids d = [] \<and> sources d = []
               \<and> offlineTracksBySource d = []"
proof -
  from migrate_success [OF assms] have "e = isEmpty d" by blast
  then show ?thesis by (auto simp: isEmpty_def)
qed

theorem isEmpty_iff_all_empty_witness:
  "fst (migrate test_env) = (SuccessBody test_snapshot False, 200)
   \<and> (False \<longleftrightarrow> trackUuids test_snapshot = [] \<and> showUuids test_snapshot = []
         \<and> artistUuids test_snapshot = [] \<and> sources test_snapshot = []
         \<and> offlineTracksBySource test_snapshot = [])"
proof -
  have run: "fst (migrate test_env) = (SuccessBody test_snapshot False, 200)"
    by (simp add: migrate_test_env)
  show ?thesis using run isEmpty_iff_all_empty [OF run] by simp
qed

subsection \<open>C6: the two open attempts\<close>

lemma extract_and_respond_Inr:
  assumes "fst (extract_and_respond env r) = Inr response"
  shows "response =
           (SuccessBody (snd (try_extract r (initial_legacyData (realm_schemaVersion r))))
              (isEmpty (snd (try_extract r (initial_legacyData (realm_schemaVersion r))))), 200)"
  using assms
  by (cases "try_extract r (initial_legacyData (realm_schemaVersion r))")
     (auto simp: extract_and_respond_def fst_close_and_respond split: option.splits)

lemma extract_and_respond_calm:
  assumes "unexpected env AtSchemaVersion = None" and "unexpected env AtWarn = None"
    and "unexpected env AtClose = None" and "unexpected env AtJson = None"
  shows "fst (extract_and_respond env r) =
           Inr (SuccessBody (snd (try_extract r (initial_legacyData (realm_schemaVersion r))))
                  (isEmpty (snd (try_extract r (initial_legacyData (realm_schemaVersion r))))),
                200)"
  using assms
  by (cases "try_extract r (initial_legacyData (realm_schemaVersion r))")
     (auto simp: extract_and_respond_def fst_close_and_respond split: option.splits)

text \<open>
  C6 as claimed: no step after a successful open may abort the whole extraction. The
  statements after the open that lie outside the inner \<^verbatim>\<open>try\<close> (reading
  \<^verbatim>\<open>realm.schemaVersion\<close>, the warning, the close, the response) are inside the outer
  \<^verbatim>\<open>try\<close>, whose \<^verbatim>\<open>catch\<close> answers 500. In the run below the open with the declared
  schema fails, the schemaless open succeeds, the next statement throws, and the whole
  operation ends with the 500 response and no snapshot.
\<close>

theorem abort_after_open_counterexample:
  "opened legacy_file = Some legacy_realm
   \<and> migrate legacy_fault_env =
       ((FailureBody ''Database parsing failed'' ''out of memory'', 500),
        [WriteTemp, OpenRealm FullSchema False, OpenRealm Schemaless True, LogError,
         UnlinkTemp])"
proof -
  have "migrate legacy_fault_env =
       ((FailureBody ''Database parsing failed'' ''out of memory'', 500),
        [WriteTemp, OpenRealm FullSchema False, OpenRealm Schemaless True, LogError,
         UnlinkTemp])"
    by code_simp
  then show ?thesis by (simp add: opened_examples)
qed

text \<open>
  C6, amended: in a run that reaches the open, the handler first calls the Realm
  constructor read-only with the seven declared schemas; on any failure of that call it
  calls it again read-only with no schema; the handler answers with the Unreadable error
  (status 400, message \<^verbatim>\<open>Unable to read database or unsupported version\<close>) exactly when
  both calls fail. After a successful open the answer is either the snapshot with status
  200 or the response \<^verbatim>\<open>Database parsing failed\<close> with status 500, never the Unreadable
  error; no failure of an extraction step aborts the operation: whatever the tables hold,
  the answer is the snapshot with status 200 unless reading the schema version, logging
  the warning, closing the handle or building the response throws.
\<close>

theorem open_fallback_protocol:
  fixes full bare :: realm_config
  defines "full \<equiv>
    \<lparr>readOnly = True,
     schema = Some [FavoritedArtistSchema, FavoritedShowSchema, FavoritedSourceSchema,
                    FavoritedTrackSchema, RecentlyPlayedTrackSchema, OfflineTrackSchema,
                    OfflineSourceSchema]\<rparr>"
    and "bare \<equiv> \<lparr>readOnly = True, schema = None\<rparr>"
  assumes "database env = Some file"
    and "unexpected env AtFormData = None" and "unexpected env AtArrayBuffer = None"
    and "unexpected env AtWriteFile = None"
  shows "(\<forall>r. file full = Inr r \<longrightarrow> open_realm file = (Inr r, [OpenRealm full True]))
       \<and> (\<forall>e r. file full = Inl e \<and> file bare = Inr r \<longrightarrow>
             open_realm file = (Inr r, [OpenRealm full False, OpenRealm bare True]))
       \<and> (\<forall>e e'. file full = Inl e \<and> file bare = Inl e' \<longrightarrow>
             open_realm file = (Inl e', [OpenRealm full False, OpenRealm bare False]))
       \<and> (fst (migrate env) = (ErrorBody ''Unable to read database or unsupported version'', 400)
            \<longleftrightarrow> (\<exists>e e'. file full = Inl e \<and> file bare = Inl e'))
       \<and> (\<forall>r. opened file = Some r \<longrightarrow>
             (fst (migrate env) =
                (SuccessBody (snd (try_extract r (initial_legacyData (realm_schemaVersion r))))
                   (isEmpty (snd (try_extract r (initial_legacyData (realm_schemaVersion r))))),
                 200)
              \<or> (\<exists>e. fst (migrate env)
                       = (FailureBody ''Database parsing failed'' (details e), 500)))
           \<and> (unexpected env AtSchemaVersion = None \<and> unexpected env AtWarn = None
                \<and> unexpected env AtClose = None \<and> unexpected env AtJson = None
              \<longrightarrow> fst (migrate env) =
                    (SuccessBody (snd (try_extract r (initial_legacyData (realm_schemaVersion r))))
                       (isEmpty (snd (try_extract r (initial_legacyData (realm_schemaVersion r))))),
                     200)))"
proof -
  have full: "file full = open_full file" and bare: "file bare = open_schemaless file"
    and configs: "full = FullSchema" "bare = Schemaless"
    by (simp_all add: full_def bare_def open_full_def open_schemaless_def FullSchema_def
          Schemaless_def)
  have c1: "\<forall>r. file full = Inr r \<longrightarrow> open_realm file = (Inr r, [OpenRealm full True])"
    by (simp add: open_realm_def full [symmetric] configs [symmetric])
  have c2: "\<forall>e r. file full = Inl e \<and> file bare = Inr r \<longrightarrow>
             open_realm file = (Inr r, [OpenRealm full False, OpenRealm bare True])"
    by (simp add: open_realm_def full [symmetric] bare [symmetric] configs [symmetric])
  have c3: "\<forall>e e'. file full = Inl e \<and> file bare = Inl e' \<longrightarrow>
             open_realm file = (Inl e', [OpenRealm full False, OpenRealm bare False])"
    by (simp add: open_realm_def full [symmetric] bare [symmetric] configs [symmetric])
  have c4: "fst (migrate env) = (ErrorBody ''Unable to read database or unsupported version'', 400)
            \<longleftrightarrow> (\<exists>e e'. file full = Inl e \<and> file bare = Inl e')"
    using migrate_unreadable [OF assms(3-6)]
    by (simp only: opened_None_iff full bare unreadable_response_def)
  have c5: "\<forall>r. opened file = Some r \<longrightarrow>
             (fst (migrate env) =
                (SuccessBody (snd (try_extract r (initial_legacyData (realm_schemaVersion r))))
                   (isEmpty (snd (try_extract r (initial_legacyData (realm_schemaVersion r))))),
                 200)
              \<or> (\<exists>e. fst (migrate env)
                       = (FailureBody ''Database parsing failed'' (details e), 500)))
           \<and> (unexpected env AtSchemaVersion = None \<and> unexpected env AtWarn = None
                \<and> unexpected env AtClose = None \<and> unexpected env AtJson = None
              \<longrightarrow> fst (migrate env) =
                    (SuccessBody (snd (try_extract r (initial_legacyData (realm_schemaVersion r))))
                       (isEmpty (snd (try_extract r (initial_legacyData (realm_schemaVersion r))))),
                     200))"
  proof (intro allI impI)
    fix r assume r: "opened file = Some r"
    have m: "fst (migrate env) =
               (case fst (extract_and_respond env r) of
                  Inr response \<Rightarrow> response
                | Inl e \<Rightarrow> failure_response e)"
      using assms(4-6) by (simp add: fst_migrate_opened [OF assms(3) r])
    show "(fst (migrate env) =
                (SuccessBody (snd (try_extract r (initial_legacyData (realm_schemaVersion r))))
                   (isEmpty (snd (try_extract r (initial_legacyData (realm_schemaVersion r))))),
                 200)
              \<or> (\<exists>e. fst (migrate env)
                       = (FailureBody ''Database parsing failed'' (details e), 500)))
           \<and> (unexpected env AtSchemaVersion = None \<and> unexpected env AtWarn = None
                \<and> unexpected env AtClose = None \<and> unexpected env AtJson = None
              \<longrightarrow> fst (migrate env) =
                    (SuccessBody (snd (try_extract r (initial_legacyData (realm_schemaVersion r))))
                       (isEmpty (snd (try_extract r (initial_legacyData (realm_schemaVersion r))))),
                     200))"
    proof (cases "fst (extract_and_respond env r)")
      case (Inl e)
      then have "fst (migrate env) = (FailureBody ''Database parsing failed'' (details e), 500)"
        by (simp add: m failure_response_def)
      moreover have "\<not> (unexpected env AtSchemaVersion = None \<and> unexpected env AtWarn = None
                \<and> unexpected env AtClose = None \<and> unexpected env AtJson = None)"
        using Inl extract_and_respond_calm [of env r] by auto
      ultimately show ?thesis by blast
    next
      case (Inr response)
      then show ?thesis
        using extract_and_respond_Inr [OF Inr] by (simp add: m)
    qed
  qed
  from c1 c2 c3 c4 c5 show ?thesis by blast
qed

lemma example_files:
  "test_file FullSchema = Inr test_realm"
  "legacy_file FullSchema = Inl (Error ''schema mismatch'')"
  "legacy_file Schemaless = Inr legacy_realm"
  "garbage_file FullSchema = Inl (Error ''invalid database'')"
  "garbage_file Schemaless = Inl (Error ''invalid database'')"
  by code_simp+

theorem open_fallback_protocol_witness:
  "readOnly FullSchema \<and> readOnly Schemaless
   \<and> open_realm test_file = (Inr test_realm, [OpenRealm FullSchema True])
   \<and> open_realm legacy_file
       = (Inr legacy_realm, [OpenRealm FullSchema False, OpenRealm Schemaless True])
   \<and> open_realm garbage_file
       = (Inl (Error ''invalid database''),
          [OpenRealm FullSchema False, OpenRealm Schemaless False])
   \<and> fst (migrate legacy_env)
       \<noteq> (ErrorBody ''Unable to read database or unsupported version'', 400)
   \<and> fst (migrate garbage_env)
       = (ErrorBody ''Unable to read database or unsupported version'', 400)
   \<and> fst (migrate legacy_env) =
       (SuccessBody (snd (try_extract legacy_realm (initial_legacyData 5)))
          (isEmpty (snd (try_extract legacy_realm (initial_legacyData 5)))), 200)"
proof -
  have t: "database test_env = Some test_file" "unexpected test_env AtFormData = None"
    "unexpected test_env AtArrayBuffer = None" "unexpected test_env AtWriteFile = None"
    by (simp_all add: test_env_def calm_def)
  have l: "database legacy_env = Some legacy_file" "unexpected legacy_env AtFormData = None"
    "unexpected legacy_env AtArrayBuffer = None" "unexpected legacy_env AtWriteFile = None"
    by (simp_all add: legacy_env_def calm_def)
  have g: "database garbage_env = Some garbage_file" "unexpected garbage_env AtFormData = None"
    "unexpected garbage_env AtArrayBuffer = None" "unexpected garbage_env AtWriteFile = None"
    by (simp_all add: garbage_env_def calm_def)
  have more: "opened legacy_file = Some legacy_realm"
    "unexpected legacy_env AtSchemaVersion = None" "unexpected legacy_env AtWarn = None"
    "unexpected legacy_env AtClose = None" "unexpected legacy_env AtJson = None"
    "realm_schemaVersion legacy_realm = 5"
    by (simp_all add: opened_examples legacy_env_def calm_def legacy_realm_def)
  have r: "readOnly FullSchema" "readOnly Schemaless"
    by (simp_all add: FullSchema_def Schemaless_def)
  note full = open_fallback_protocol [OF t, folded FullSchema_def Schemaless_def]
  note fallback = open_fallback_protocol [OF l, folded FullSchema_def Schemaless_def]
  note unreadable = open_fallback_protocol [OF g, folded FullSchema_def Schemaless_def]
  from full example_files
  have c1: "open_realm test_file = (Inr test_realm, [OpenRealm FullSchema True])"
    by blast
  from fallback example_files have c2: "open_realm legacy_file
       = (Inr legacy_realm, [OpenRealm FullSchema False, OpenRealm Schemaless True])"
    by blast
  from unreadable example_files have c3: "open_realm garbage_file
       = (Inl (Error ''invalid database''),
          [OpenRealm FullSchema False, OpenRealm Schemaless False])"
    by blast
  from fallback example_files have c4: "fst (migrate legacy_env)
       \<noteq> (ErrorBody ''Unable to read database or unsupported version'', 400)"
    by auto
  from unreadable example_files have c5: "fst (migrate garbage_env)
       = (ErrorBody ''Unable to read database or unsupported version'', 400)"
    by blast
  from fallback more have c6: "fst (migrate legacy_env) =
       (SuccessBody (snd (try_extract legacy_realm (initial_legacyData 5)))
          (isEmpty (snd (try_extract legacy_realm (initial_legacyData 5)))), 200)"
    by auto
  from r c1 c2 c3 c4 c5 c6 show ?thesis by blast
qed

subsection \<open>C7: every emitted identifier is lowercase\<close>

text \<open>
  C7: every identifier in any output field (the entries of trackUuids, showUuids and
  artistUuids, the \<^verbatim>\<open>uuid\<close>, \<^verbatim>\<open>artist_uuid\<close> and \<^verbatim>\<open>show_uuid\<close> of the sources, and the keys
  and the \<^verbatim>\<open>track_uuid\<close>, \<^verbatim>\<open>artist_uuid\<close>, \<^verbatim>\<open>show_uuid\<close> and \<^verbatim>\<open>source_uuid\<close> of the
  records of offlineTracksBySource) equals its own lowercased form, and lowercasing is
  idempotent.
\<close>

theorem output_identifiers_lowercase:
  assumes "fst (migrate env) = (SuccessBody d e, status)"
  shows "(\<forall>u \<in> set (trackUuids d) \<union> set (showUuids d) \<union> set (artistUuids d). toLowerCase u = u)
       \<and> (\<forall>s \<in> set (sources d).
             toLowerCase (uuid s) = uuid s
           \<and> toLowerCase (source_record.artist_uuid s) = source_record.artist_uuid s
           \<and> toLowerCase (source_record.show_uuid s) = source_record.show_uuid s)
       \<and> (\<forall>(key, ts) \<in> set (offlineTracksBySource d). toLowerCase key = key
           \<and> (\<forall>t \<in> set ts.
                 toLowerCase (track_uuid t) = track_uuid t
               \<and> toLowerCase (artist_uuid t) = artist_uuid t
               \<and> toLowerCase (show_uuid t) = show_uuid t
               \<and> toLowerCase (source_uuid t) = source_uuid t))
       \<and> (\<forall>x. toLowerCase (toLowerCase x) = toLowerCase x)"
proof -
  from migrate_success [OF assms] obtain r where
    d: "d = snd (try_extract r (initial_legacyData (realm_schemaVersion r)))"
    by blast
  have uuids: "toLowerCase u = u" if "u \<in> set (collected (favorite_uuids r name))" for u name
    using that favorite_uuids_lower [of r name]
    by (cases "favorite_uuids r name") (auto simp: collected_def)
  have "\<forall>u \<in> set (trackUuids d) \<union> set (showUuids d) \<union> set (artistUuids d). toLowerCase u = u"
    unfolding d by (auto simp: try_extract_fields uuids split: if_splits)
  moreover have "\<forall>s \<in> set (sources d).
             toLowerCase (uuid s) = uuid s
           \<and> toLowerCase (source_record.artist_uuid s) = source_record.artist_uuid s
           \<and> toLowerCase (source_record.show_uuid s) = source_record.show_uuid s"
  proof
    fix s assume "s \<in> set (sources d)"
    then have "s \<in> set (collected (favorite_sources r))"
      unfolding d by (simp add: try_extract_fields split: if_splits)
    then show "toLowerCase (uuid s) = uuid s
           \<and> toLowerCase (source_record.artist_uuid s) = source_record.artist_uuid s
           \<and> toLowerCase (source_record.show_uuid s) = source_record.show_uuid s"
      using favorite_sources_lower [of r _ s]
      by (cases "favorite_sources r") (simp_all add: collected_def)
  qed
  moreover have "\<forall>(key, ts) \<in> set (offlineTracksBySource d). toLowerCase key = key
           \<and> (\<forall>t \<in> set ts.
                 toLowerCase (track_uuid t) = track_uuid t
               \<and> toLowerCase (artist_uuid t) = artist_uuid t
               \<and> toLowerCase (show_uuid t) = show_uuid t
               \<and> toLowerCase (source_uuid t) = source_uuid t)"
  proof (clarify)
    fix key ts assume "(key, ts) \<in> set (offlineTracksBySource d)"
    then have "(key, ts) \<in> set (collected (offline_by_source r))"
      unfolding d by (simp add: try_extract_fields split: if_splits)
    then obtain m where m: "offline_by_source r = Inr m" and mem: "(key, ts) \<in> set m"
      by (cases "offline_by_source r") (simp_all add: collected_def)
    have each: "\<forall>t \<in> set ts. source_uuid t = key
               \<and> toLowerCase (track_uuid t) = track_uuid t
               \<and> toLowerCase (artist_uuid t) = artist_uuid t
               \<and> toLowerCase (show_uuid t) = show_uuid t
               \<and> toLowerCase (source_uuid t) = source_uuid t"
      using offline_by_source_lower [OF m mem] by blast
    have "ts \<noteq> []"
      using m mem by (rule offline_by_source_nonempty)
    then obtain t where "t \<in> set ts" by (cases ts) auto
    with each have "toLowerCase key = key" by auto
    with each show "toLowerCase key = key
           \<and> (\<forall>t \<in> set ts.
                 toLowerCase (track_uuid t) = track_uuid t
               \<and> toLowerCase (artist_uuid t) = artist_uuid t
               \<and> toLowerCase (show_uuid t) = show_uuid t
               \<and> toLowerCase (source_uuid t) = source_uuid t)"
      by blast
  qed
  ultimately show ?thesis by (simp add: toLowerCase_idem)
qed

theorem output_identifiers_lowercase_witness:
  "fst (migrate test_env) = (SuccessBody test_snapshot False, 200)
   \<and> ''track-202'' \<in> set (trackUuids test_snapshot)
   \<and> toLowerCase ''track-202'' = ''track-202''
   \<and> test_source \<in> set (sources test_snapshot)
   \<and> toLowerCase (uuid test_source) = uuid test_source
   \<and> (''source-789'', [test_offline_track]) \<in> set (offlineTracksBySource test_snapshot)
   \<and> toLowerCase ''source-789'' = ''source-789''
   \<and> toLowerCase (track_uuid test_offline_track) = track_uuid test_offline_track
   \<and> toLowerCase (toLowerCase ''Track-202'') = toLowerCase ''Track-202''"
proof -
  have run: "fst (migrate test_env) = (SuccessBody test_snapshot False, 200)"
    by (simp add: migrate_test_env)
  have mem: "''track-202'' \<in> set (trackUuids test_snapshot)"
    "test_source \<in> set (sources test_snapshot)"
    "(''source-789'', [test_offline_track]) \<in> set (offlineTracksBySource test_snapshot)"
    by (simp_all add: test_snapshot_def)
  note lower = output_identifiers_lowercase [OF run]
  from lower mem(1) have c1: "toLowerCase ''track-202'' = ''track-202''"
    by blast
  from lower mem(2) have c2: "toLowerCase (uuid test_source) = uuid test_source"
    by blast
  from lower mem(3) have c3: "toLowerCase ''source-789'' = ''source-789''"
    and c4: "toLowerCase (track_uuid test_offline_track) = track_uuid test_offline_track"
    by auto
  from lower have c5: "toLowerCase (toLowerCase ''Track-202'') = toLowerCase ''Track-202''"
    by blast
  from run mem c1 c2 c3 c4 c5 show ?thesis by blast
qed

subsection \<open>C8: a store without the offline tables\<close>

lemma older_realm_tables:
  "objects older_realm ''OfflineTrack''
     = Inl (Error ''Object type not found in schema: OfflineTrack'')"
  "objects older_realm ''OfflineSource''
     = Inl (Error ''Object type not found in schema: OfflineSource'')"
  "objects older_realm ''FavoritedTrack'' = Inr (snd track_table)"
  "objects older_realm ''FavoritedShow'' = Inr (snd show_table)"
  "objects older_realm ''FavoritedSource'' = Inr older_source_rows"
  "objects older_realm ''FavoritedArtist'' = Inr (snd artist_table)"
  by code_simp+

lemma migrate_older_env:
  "migrate older_env =
     ((SuccessBody older_snapshot False, 200),
      [WriteTemp, OpenRealm FullSchema False, OpenRealm Schemaless True, LogWarn, CloseRealm,
       UnlinkTemp])"
  by code_simp

text \<open>
  C8 as claimed: for every store whose schema lacks the OfflineTrack and OfflineSource
  tables but contains the four favorites tables, the four favorites collections are
  populated from the store. The store below is such a store, of a schema version whose
  FavoritedSource rows have no \<^verbatim>\<open>show_uuid\<close> yet: normalising the source throws inside
  the single \<^verbatim>\<open>try\<close>, so the answer has status 200 with neither the source nor the
  artist, although both tables hold one row.
\<close>

theorem older_store_counterexample:
  "objects older_realm ''OfflineTrack''
     = Inl (Error ''Object type not found in schema: OfflineTrack'')
   \<and> objects older_realm ''OfflineSource''
     = Inl (Error ''Object type not found in schema: OfflineSource'')
   \<and> objects older_realm ''FavoritedTrack'' = Inr (snd track_table)
   \<and> objects older_realm ''FavoritedShow'' = Inr (snd show_table)
   \<and> objects older_realm ''FavoritedSource'' = Inr older_source_rows
   \<and> objects older_realm ''FavoritedArtist'' = Inr (snd artist_table)
   \<and> length older_source_rows = 1
   \<and> length (snd artist_table) = 1
   \<and> fst (migrate older_env) = (SuccessBody older_snapshot False, 200)
   \<and> sources older_snapshot = []
   \<and> artistUuids older_snapshot = []"
  by (simp add: older_realm_tables migrate_older_env older_snapshot_def older_source_rows_def
        artist_table_def)

text \<open>
  C8, amended: for every store that one of the two open attempts opens, whose schema lacks
  the OfflineTrack table (and the OfflineSource table, which the handler never reads) and
  contains the four favorites tables, with rows that carry strings in the identifiers the
  handler reads (\<^verbatim>\<open>uuid\<close>, and for FavoritedSource also \<^verbatim>\<open>artist_uuid\<close> and
  \<^verbatim>\<open>show_uuid\<close>), a run without unexpected failure succeeds with status 200:
  offlineTracksBySource is empty, the four favorites collections are populated from the
  store (every row, normalised), and the answer is not the Unreadable error.
\<close>

theorem legacy_store_without_offline_tables:
  assumes "database env = Some file" and "opened file = Some r" and "no_unexpected env"
    and "objects r ''OfflineTrack'' = Inl err"
    and "objects r ''FavoritedTrack'' = Inr tracks" and "string_properties [''uuid''] tracks"
    and "objects r ''FavoritedShow'' = Inr show_rows" and "string_properties [''uuid''] show_rows"
    and "objects r ''FavoritedSource'' = Inr srcs"
    and "string_properties [''uuid'', ''artist_uuid'', ''show_uuid''] srcs"
    and "objects r ''FavoritedArtist'' = Inr artists" and "string_properties [''uuid''] artists"
  shows "\<exists>d e. fst (migrate env) = (SuccessBody d e, 200)
           \<and> fst (migrate env)
                \<noteq> (ErrorBody ''Unable to read database or unsupported version'', 400)
           \<and> trackUuids d = sort (map (\<lambda>row. lowered row ''uuid'') tracks)
           \<and> showUuids d = sort (map (\<lambda>row. lowered row ''uuid'') show_rows)
           \<and> sources d = map normal_source srcs
           \<and> artistUuids d = sort (map (\<lambda>row. lowered row ''uuid'') artists)
           \<and> offlineTracksBySource d = []
           \<and> schemaVersion d = realm_schemaVersion r"
proof -
  let ?d = "snd (try_extract r (initial_legacyData (realm_schemaVersion r)))"
  have off: "offline_by_source r = Inl err"
    using assms(4) by (simp add: offline_by_source_def downloadedTracks_def)
  have run: "fst (migrate env) = (SuccessBody ?d (isEmpty ?d), 200)"
    using assms(1,3,2) by (rule migrate_no_unexpected)
  then have "fst (migrate env)
               \<noteq> (ErrorBody ''Unable to read database or unsupported version'', 400)"
    by simp
  moreover have "trackUuids ?d = sort (map (\<lambda>row. lowered row ''uuid'') tracks)"
    by (simp add: try_extract_fields favorite_uuids_typed [OF assms(5,6)] collected_def)
  moreover have "showUuids ?d = sort (map (\<lambda>row. lowered row ''uuid'') show_rows)"
    by (simp add: try_extract_fields favorite_uuids_typed [OF assms(5,6)]
          favorite_uuids_typed [OF assms(7,8)] collected_def readable_def)
  moreover have "sources ?d = map normal_source srcs"
    by (simp add: try_extract_fields favorite_uuids_typed [OF assms(5,6)]
          favorite_uuids_typed [OF assms(7,8)] favorite_sources_typed [OF assms(9,10)]
          collected_def readable_def)
  moreover have "artistUuids ?d = sort (map (\<lambda>row. lowered row ''uuid'') artists)"
    by (simp add: try_extract_fields favorite_uuids_typed [OF assms(5,6)]
          favorite_uuids_typed [OF assms(7,8)] favorite_sources_typed [OF assms(9,10)]
          favorite_uuids_typed [OF assms(11,12)] collected_def readable_def)
  moreover have "offlineTracksBySource ?d = []"
    by (simp add: try_extract_fields off collected_def)
  moreover have "schemaVersion ?d = realm_schemaVersion r"
    by (simp add: try_extract_fields)
  ultimately show ?thesis using run by blast
qed

lemma legacy_realm_tables:
  "objects legacy_realm ''OfflineTrack''
     = Inl (Error ''Object type not found in schema: OfflineTrack'')"
  "objects legacy_realm ''OfflineSource''
     = Inl (Error ''Object type not found in schema: OfflineSource'')"
  "objects legacy_realm ''FavoritedTrack'' = Inr (snd track_table)"
  "objects legacy_realm ''FavoritedShow'' = Inr (snd show_table)"
  "objects legacy_realm ''FavoritedSource'' = Inr (snd source_table)"
  "objects legacy_realm ''FavoritedArtist'' = Inr (snd artist_table)"
  by code_simp+

lemma legacy_realm_typed:
  "string_properties [''uuid''] (snd track_table)"
  "string_properties [''uuid''] (snd show_table)"
  "string_properties [''uuid'', ''artist_uuid'', ''show_uuid''] (snd source_table)"
  "string_properties [''uuid''] (snd artist_table)"
  by code_simp+

lemma legacy_realm_normalised:
  "sort (map (\<lambda>row. lowered row ''uuid'') (snd track_table)) = [''track-101'', ''track-202'']"
  "sort (map (\<lambda>row. lowered row ''uuid'') (snd show_table)) = [''show-456'']"
  "map normal_source (snd source_table) = [test_source]"
  "sort (map (\<lambda>row. lowered row ''uuid'') (snd artist_table)) = [''artist-123'']"
  by code_simp+

theorem legacy_store_without_offline_tables_witness:
  "objects legacy_realm ''OfflineTrack''
     = Inl (Error ''Object type not found in schema: OfflineTrack'')
   \<and> objects legacy_realm ''OfflineSource''
     = Inl (Error ''Object type not found in schema: OfflineSource'')
   \<and> (\<exists>d e. fst (migrate legacy_env) = (SuccessBody d e, 200)
         \<and> trackUuids d = [''track-101'', ''track-202'']
         \<and> showUuids d = [''show-456'']
         \<and> sources d = [test_source]
         \<and> artistUuids d = [''artist-123'']
         \<and> offlineTracksBySource d = []
         \<and> schemaVersion d = 5)"
proof -
  have h1: "database legacy_env = Some legacy_file"
    by (simp add: legacy_env_def)
  have h2: "opened legacy_file = Some legacy_realm"
    by (simp add: opened_examples)
  have h3: "no_unexpected legacy_env"
    by (simp add: legacy_env_def no_unexpected_calm)
  have v: "realm_schemaVersion legacy_realm = 5"
    by (simp add: legacy_realm_def)
  show ?thesis
    using legacy_store_without_offline_tables
      [OF h1 h2 h3 legacy_realm_tables(1) legacy_realm_tables(3) legacy_realm_typed(1)
          legacy_realm_tables(4) legacy_realm_typed(2) legacy_realm_tables(5)
          legacy_realm_typed(3) legacy_realm_tables(6) legacy_realm_typed(4)]
    by (auto simp: legacy_realm_normalised legacy_realm_tables v)
qed

subsection \<open>C9: aggregateBy and the inherited keys\<close>

text \<open>
  C9: for every list of items and every key selector, aggregateBy returns a mapping that
  partitions its input. For keys that are not names of \<^verbatim>\<open>Object.prototype\<close> members this
  is \<open>aggregateBy_plain\<close>. The code does not return for a key that names such a member:
  with the single item \<^verbatim>\<open>1\<close> and a selector that gives \<^verbatim>\<open>constructor\<close>, \<^verbatim>\<open>result[key]\<close>
  is the inherited \<^verbatim>\<open>Object\<close> function, the array is never created, and the \<^verbatim>\<open>push\<close> call
  throws. The handler reaches this with one downloaded offline track whose \<^verbatim>\<open>source_uuid\<close>
  is \<^verbatim>\<open>Constructor\<close>: the throw is caught and the snapshot has no offline tracks.
\<close>

theorem aggregateBy_constructor_throws:
  "aggregateBy [1 :: nat] (\<lambda>item. ''constructor'')
     = Inl (Error ''result[key].push is not a function'')
   \<and> downloadedTracks constructor_realm = Inr [offline_track ''t1'' ''constructor'']
   \<and> try_extract constructor_realm (initial_legacyData 9)
       = (Some (Error ''result[key].push is not a function''), initial_legacyData 9)"
proof -
  have "aggregateBy [1 :: nat] (\<lambda>item. ''constructor'')
          = Inl (Error ''result[key].push is not a function'')"
    by (simp add: aggregateBy_def aggregateBy_step_def get_property_def
          Object_prototype_names_def)
  moreover have "downloadedTracks constructor_realm = Inr [offline_track ''t1'' ''constructor'']"
    by code_simp
  moreover have "try_extract constructor_realm (initial_legacyData 9)
       = (Some (Error ''result[key].push is not a function''), initial_legacyData 9)"
    by code_simp
  ultimately show ?thesis by simp
qed

subsection \<open>C10: the tables that are declared but never read\<close>

text \<open>
  C10: for every pair of successfully opened stores that agree on the contents of the five
  read tables (FavoritedArtist, FavoritedShow, FavoritedSource, FavoritedTrack,
  OfflineTrack) and on the schema version, and differ arbitrarily elsewhere (in the
  RecentlyPlayedTrack and OfflineSource tables), the responses of two runs that differ only
  in the store are equal: no field of the snapshot depends on the other tables.
\<close>

theorem unread_tables_irrelevant:
  assumes "opened file1 = Some r1" and "opened file2 = Some r2"
    and "realm_schemaVersion r1 = realm_schemaVersion r2"
    and "\<forall>name \<in> set read_tables. objects r1 name = objects r2 name"
  shows "fst (migrate \<lparr>database = Some file1, unexpected = u\<rparr>)
       = fst (migrate \<lparr>database = Some file2, unexpected = u\<rparr>)"
proof -
  have "try_extract r1 (initial_legacyData (realm_schemaVersion r1))
      = try_extract r2 (initial_legacyData (realm_schemaVersion r2))"
    using assms(3) try_extract_cong [OF assms(4)] by simp
  then have "fst (extract_and_respond \<lparr>database = Some file1, unexpected = u\<rparr> r1)
           = fst (extract_and_respond \<lparr>database = Some file2, unexpected = u\<rparr> r2)"
    by (intro fst_extract_and_respond_cong) simp_all
  then show ?thesis
    by (simp add: fst_migrate_opened [OF _ assms(1)] fst_migrate_opened [OF _ assms(2)]
          split: option.splits)
qed

theorem unread_tables_irrelevant_witness:
  "objects test_realm ''RecentlyPlayedTrack'' \<noteq> objects test_realm_more ''RecentlyPlayedTrack''
   \<and> objects test_realm ''OfflineSource'' \<noteq> objects test_realm_more ''OfflineSource''
   \<and> list_all (\<lambda>name. objects test_realm name = objects test_realm_more name) read_tables
   \<and> fst (migrate \<lparr>database = Some test_file, unexpected = calm\<rparr>)
       = fst (migrate \<lparr>database = Some test_file_more, unexpected = calm\<rparr>)
   \<and> fst (migrate \<lparr>database = Some test_file_more, unexpected = calm\<rparr>)
       = (SuccessBody test_snapshot False, 200)"
proof -
  have h1: "opened test_file = Some test_realm" and h2: "opened test_file_more = Some test_realm_more"
    by (simp_all add: opened_examples)
  have h3: "realm_schemaVersion test_realm = realm_schemaVersion test_realm_more"
    by (simp add: test_realm_def test_realm_more_def)
  have h4: "list_all (\<lambda>name. objects test_realm name = objects test_realm_more name) read_tables"
    by code_simp
  then have h4': "\<forall>name \<in> set read_tables. objects test_realm name = objects test_realm_more name"
    by (simp only: list_all_iff)
  have d: "objects test_realm ''RecentlyPlayedTrack''
             \<noteq> objects test_realm_more ''RecentlyPlayedTrack''"
    "objects test_realm ''OfflineSource'' \<noteq> objects test_realm_more ''OfflineSource''"
    by code_simp+
  have run: "fst (migrate \<lparr>database = Some test_file, unexpected = calm\<rparr>)
               = (SuccessBody test_snapshot False, 200)"
    using migrate_test_env by (simp add: test_env_def)
  show ?thesis
    using unread_tables_irrelevant [OF h1 h2 h3 h4', of calm] h4 d run by simp
qed

end
